theory Spec2Isabelle
  imports Main
begin

section \<open>Conventions\<close>

text \<open>
  A JavaScript string is modelled as the list of its UTF-16 code units, so that
  \<open>length\<close> is the source's \<open>.length\<close>. Where the content of a string comes from
  outside (labels, URIs, document identifiers) the type of code units is a type
  variable \<open>'c\<close>; where the source compares against or splits at an ASCII literal the
  string is a \<open>string\<close> and the literal is written out.

  An awaited HTTP call is a function of the request (and, for a store that is written
  to, of the events before it); it answers with a \<open>reply\<close>: no response at all, or a
  status code and a body. The reply is the one the call of \<open>got\<close> settles with: \<open>got\<close>
  sends a \<open>GET\<close>, \<open>PUT\<close> or \<open>DELETE\<close> request again, by its default \<open>retry\<close>
  option, after some failures, and the reply is that of the last attempt. A body that
  is validated against a schema right after the call is modelled by what the
  validation makes of it: \<open>None\<close> when \<open>parse\<close> throws, \<open>Some\<close> of the parsed value
  otherwise. A \<open>throw\<close> or a rejected promise is the \<open>Inl\<close> branch of a sum.
\<close>

datatype 'b reply = NetworkError | Reply nat 'b

section \<open>Term index synchronizer (\<open>indexTerms\<close>)\<close>

text \<open>One element of \<open>results.bindings\<close> that passed \<open>fetchTermsResponseSchema\<close>.\<close>

record 'c binding =
  slabel_value :: "'c list"
  s_value :: "'c list"

record 'c FetchedTerm =
  label :: "'c list"
  uri :: "'c list"

datatype sync_error =
    RequestError
  | NeptuneRequestFailed nat
  | ZodError
  | ESRequestFailed nat

text \<open>The fields named by \<open>queryForTerm\<close>'s \<open>multi_match\<close>, and its match type.\<close>

datatype doc_field = Contents | Title

datatype match_type = Phrase

record 'c term_query =
  tq_label :: "'c list"
  tq_suggest :: "'c list list"
  tq_multi_match_query :: "'c list"
  tq_multi_match_type :: match_type
  tq_multi_match_fields :: "doc_field list"
  tq_source_terminology :: "'c list"
  tq_namedGraphUri :: "'c list"
  tq_uri :: "'c list"

text \<open>
  One line of the newline-delimited \<open>_bulk\<close> body: the action line of \<open>indexForTerm\<close>
  (\<open>{index: {_index, _type: '_doc'}}\<close>) or the document line of \<open>queryForTerm\<close>.
\<close>

datatype 'c bulk_line = IndexAction "'c list" | TermQuery "'c term_query"

datatype 'c sync_event = FetchTermsRequest nat | BulkRequest "'c bulk_line list"

text \<open>
  The body of a graph-store reply is \<open>None\<close> when \<open>fetchTermsResponseSchema.parse\<close>
  rejects it and \<open>Some bindings\<close> when it accepts it. The query text is the caller's
  query with \<open>LIMIT 500 OFFSET offset\<close> appended, so that the request is the offset; the
  graph store is only read during a run, and its answer is a function of the offset.
\<close>

type_synonym 'c sparql_store = "nat \<Rightarrow> 'c binding list option reply"

type_synonym 'c bulk_store = "'c sync_event list \<Rightarrow> 'c bulk_line list \<Rightarrow> unit reply"

definition fetchTerms ::
  "'c sparql_store \<Rightarrow> nat \<Rightarrow> sync_error + 'c FetchedTerm list" where
  "fetchTerms sparql offset =
     (case sparql offset of
        NetworkError \<Rightarrow> Inl RequestError
      | Reply status b \<Rightarrow>
          if status \<noteq> 200 then Inl (NeptuneRequestFailed status)
          else (case b of
                  None \<Rightarrow> Inl ZodError
                | Some bindings \<Rightarrow>
                    Inr (map (\<lambda>b. \<lparr>label = slabel_value b, uri = s_value b\<rparr>) bindings)))"

definition indexForTerm :: "'c list \<Rightarrow> 'c bulk_line" where
  "indexForTerm indexName = IndexAction indexName"

definition queryForTerm :: "'c FetchedTerm \<Rightarrow> 'c list \<Rightarrow> 'c list \<Rightarrow> 'c bulk_line" where
  "queryForTerm t terminologyTitle namedGraphUri =
     TermQuery \<lparr>tq_label = label t,
                tq_suggest = [label t],
                tq_multi_match_query = label t,
                tq_multi_match_type = Phrase,
                tq_multi_match_fields = [Contents, Title],
                tq_source_terminology = terminologyTitle,
                tq_namedGraphUri = namedGraphUri,
                tq_uri = uri t\<rparr>"

record 'c CreateTermIndexParams =
  namedGraphUri :: "'c list"
  terminologyTitle :: "'c list"
  indexName :: "'c list"
  stopwords :: "'c list list"

definition bulkBody :: "'c CreateTermIndexParams \<Rightarrow> 'c FetchedTerm list \<Rightarrow> 'c bulk_line list" where
  "bulkBody params terms =
     concat (map (\<lambda>t. [indexForTerm (indexName params),
                        queryForTerm t (terminologyTitle params) (namedGraphUri params)]) terms)"

definition bulkIndexTerms ::
  "'c bulk_store \<Rightarrow> 'c sync_event list \<Rightarrow> 'c CreateTermIndexParams \<Rightarrow> 'c FetchedTerm list
     \<Rightarrow> sync_error + unit" where
  "bulkIndexTerms es tr params terms =
     (case es tr (bulkBody params terms) of
        NetworkError \<Rightarrow> Inl RequestError
      | Reply status b \<Rightarrow> if status \<noteq> 200 then Inl (ESRequestFailed status) else Inr ())"

definition validTerms :: "'c list list \<Rightarrow> 'c FetchedTerm list \<Rightarrow> 'c FetchedTerm list" where
  "validTerms sw terms = filter (\<lambda>t. length (label t) > 2 \<and> label t \<notin> set sw) terms"

text \<open>
  The \<open>while (true)\<close> loop of \<open>indexTerms\<close>. It may run forever, so it is a partial
  function: \<open>None\<close> is a run that never returns. A run that returns gives the outcome, the
  value of \<open>offset\<close> at that moment and the requests issued, oldest first.
\<close>

partial_function (option) indexTerms_loop ::
  "'c sparql_store \<Rightarrow> 'c bulk_store \<Rightarrow> 'c CreateTermIndexParams \<Rightarrow> nat \<Rightarrow> 'c sync_event list
     \<Rightarrow> ((sync_error + unit) \<times> nat \<times> 'c sync_event list) option" where
  "indexTerms_loop sparql es params offset tr =
     (let tr1 = tr @ [FetchTermsRequest offset] in
      case fetchTerms sparql offset of
        Inl e \<Rightarrow> Some (Inl e, offset, tr1)
      | Inr terms \<Rightarrow>
          if length terms = 0 then Some (Inr (), offset, tr1)
          else
            let valid = validTerms (stopwords params) terms in
            if length valid > 0 then
              (let tr2 = tr1 @ [BulkRequest (bulkBody params valid)] in
               case bulkIndexTerms es tr1 params valid of
                 Inl e \<Rightarrow> Some (Inl e, offset, tr2)
               | Inr u \<Rightarrow> indexTerms_loop sparql es params (offset + length terms) tr2)
            else indexTerms_loop sparql es params (offset + length terms) tr1)"

declare indexTerms_loop.simps [code]

definition indexTerms ::
  "'c sparql_store \<Rightarrow> 'c bulk_store \<Rightarrow> 'c CreateTermIndexParams
     \<Rightarrow> ((sync_error + unit) \<times> nat \<times> 'c sync_event list) option" where
  "indexTerms sparql es params = indexTerms_loop sparql es params 0 []"


section \<open>Search-index client (open-search-client)\<close>

datatype 'x os_error =
    GotRequestError
  | HTTPError nat
  | ZodParseError
  | CreateIndexError string
  | UnexpectedResponse nat
  | HandlerRejected 'x
  | AggregateError "'x list"
  | PMapTypeError

text \<open>
  \<open>gotEs\<close> is \<open>got\<close> with \<open>resolveBodyOnly\<close> and the default \<open>throwHttpErrors\<close>:
  the promise resolves with the body of a response that \<open>got\<close> takes for successful (a
  status from 200 to 299, or 304) and rejects with an \<open>HTTPError\<close> otherwise.
\<close>

definition gotEs :: "'b reply \<Rightarrow> 'x os_error + 'b" where
  "gotEs r =
     (case r of
        NetworkError \<Rightarrow> Inl GotRequestError
      | Reply status b \<Rightarrow>
          if (200 \<le> status \<and> status \<le> 299) \<or> status = 304 then Inr b
          else Inl (HTTPError status))"

subsection \<open>\<open>scrollMap\<close>\<close>

text \<open>A response accepted by \<open>scrollResponseSchema\<close>: \<open>_scroll_id\<close> and \<open>hits.hits\<close>.\<close>

record ('c, 'h) scroll_response =
  scroll_id :: "'c list"
  hits :: "'h list"

text \<open>
  The options of \<open>openScroll\<close> (each may be left out) and the request it posts to
  \<open><index>/_search\<close>: the \<open>scroll\<close> parameter in minutes, the \<open>_source.includes\<close>
  and the page size.
\<close>

record OpenScrollOptions =
  oso_includes :: "string list option"
  oso_scrollTimeout :: "nat option"
  oso_size :: "nat option"

record 'c open_scroll_request =
  osr_index :: "'c list"
  osr_scroll_minutes :: nat
  osr_source_includes :: "string list"
  osr_size :: nat

text \<open>
  What \<open>scrollMap\<close> does, in order: its calls of \<open>openScroll\<close>, \<open>nextScroll\<close> and
  \<open>closeScroll\<close> (with the request or the scroll id they send), the pages it receives
  (with the scroll id the response carries) and the calls of the per-hit handler.
\<close>

datatype ('c, 'h) scroll_event =
    OpenScrollRequest "'c open_scroll_request"
  | ScrollPage "'c list" "'h list"
  | HandlerCall 'h
  | NextScrollRequest "'c list"
  | CloseScrollRequest "'c list"

type_synonym ('c, 'h, 'x) hit_handler = "('c, 'h) scroll_event list \<Rightarrow> 'h \<Rightarrow> 'x option"

type_synonym ('c, 'h) scroll_store =
  "('c, 'h) scroll_event list \<Rightarrow> 'c list \<Rightarrow> ('c, 'h) scroll_response option reply"

type_synonym ('c, 'h) close_store = "('c, 'h) scroll_event list \<Rightarrow> 'c list \<Rightarrow> unit option reply"

text \<open>
  The options of \<open>pMap\<close> (the p-map library, in the version whose typing
  \<open>pMap.Options\<close> the source uses); each may be left out, and a \<open>pMapOptions\<close> that
  is left out is the record without any option. \<open>concurrency\<close> defaults to
  \<open>Infinity\<close> (\<open>None\<close> below) and \<open>stopOnError\<close> to \<open>true\<close>.
\<close>

record PMapOptions =
  pmo_concurrency :: "nat option"
  pmo_stopOnError :: "bool option"

text \<open>
  \<open>pMap\<close> with \<open>stopOnError\<close>: the handler is called on the hits in order, at most
  \<open>concurrency\<close> calls being unsettled at a time. When a call rejects (\<open>Some x\<close> is a
  handler that rejects with \<open>x\<close>) the promise of \<open>pMap\<close> rejects with \<open>x\<close> and no
  further hit is taken up, but the handler has been called, or is still called, on the
  hits that were taken up with the rejecting one: all the later hits of the page with
  the default \<open>concurrency\<close>, the next \<open>concurrency - 1\<close> otherwise. The order in time
  of concurrent handlers is not modelled: the calls settle in the order in which they
  are made.
\<close>

fun pMapStopOnError ::
  "'h list \<Rightarrow> ('c, 'h, 'x) hit_handler \<Rightarrow> nat option \<Rightarrow> ('c, 'h) scroll_event list
     \<Rightarrow> 'x option \<times> ('c, 'h) scroll_event list" where
  "pMapStopOnError [] f concurrency tr = (None, tr)"
| "pMapStopOnError (h # hs) f concurrency tr =
     (case f tr h of
        Some x \<Rightarrow>
          (Some x,
           tr @ HandlerCall h
                # map HandlerCall (case concurrency of None \<Rightarrow> hs | Some k \<Rightarrow> take (k - 1) hs))
      | None \<Rightarrow> pMapStopOnError hs f concurrency (tr @ [HandlerCall h]))"

text \<open>
  \<open>pMap\<close> without \<open>stopOnError\<close>: the handler is called on every hit, and the
  rejections are collected.
\<close>

fun pMapCollectErrors ::
  "'h list \<Rightarrow> ('c, 'h, 'x) hit_handler \<Rightarrow> ('c, 'h) scroll_event list
     \<Rightarrow> 'x list \<times> ('c, 'h) scroll_event list" where
  "pMapCollectErrors [] f tr = ([], tr)"
| "pMapCollectErrors (h # hs) f tr =
     (case pMapCollectErrors hs f (tr @ [HandlerCall h]) of
        (errors, tr') \<Rightarrow> ((case f tr h of None \<Rightarrow> errors | Some x \<Rightarrow> x # errors), tr'))"

text \<open>
  \<open>pMap(hits, f, pMapOptions)\<close>: a \<open>concurrency\<close> below 1 is refused with a
  \<open>TypeError\<close> before any call; the result is \<open>None\<close> when the promise resolves.
\<close>

definition pMap ::
  "'h list \<Rightarrow> ('c, 'h, 'x) hit_handler \<Rightarrow> PMapOptions \<Rightarrow> ('c, 'h) scroll_event list
     \<Rightarrow> 'x os_error option \<times> ('c, 'h) scroll_event list" where
  "pMap hs f options tr =
     (let concurrency = pmo_concurrency options;
          stopOnError = (case pmo_stopOnError options of None \<Rightarrow> True | Some b \<Rightarrow> b)
      in if concurrency = Some 0 then (Some PMapTypeError, tr)
         else if stopOnError then
           (case pMapStopOnError hs f concurrency tr of
              (None, tr') \<Rightarrow> (None, tr')
            | (Some x, tr') \<Rightarrow> (Some (HandlerRejected x), tr'))
         else
           (case pMapCollectErrors hs f tr of
              (errors, tr') \<Rightarrow>
                if errors = [] then (None, tr') else (Some (AggregateError errors), tr')))"

definition openScroll ::
  "('c open_scroll_request \<Rightarrow> 'b reply) \<Rightarrow> 'c list \<Rightarrow> OpenScrollOptions
     \<Rightarrow> 'c open_scroll_request \<times> ('x os_error + 'b)" where
  "openScroll es index options =
     (let includes = (case oso_includes options of None \<Rightarrow> [''*''] | Some v \<Rightarrow> v);
          scrollTimeout = (case oso_scrollTimeout options of None \<Rightarrow> 60 | Some v \<Rightarrow> v);
          size' = (case oso_size options of None \<Rightarrow> 500 | Some v \<Rightarrow> v);
          request = \<lparr>osr_index = index, osr_scroll_minutes = scrollTimeout,
                     osr_source_includes = includes, osr_size = size'\<rparr>
      in (request, gotEs (es request)))"

text \<open>\<open>nextScroll\<close> is always called with its default \<open>scrollTimeout\<close> here.\<close>

definition nextScroll ::
  "('c, 'h) scroll_store \<Rightarrow> ('c, 'h) scroll_event list \<Rightarrow> 'c list
     \<Rightarrow> 'x os_error + ('c, 'h) scroll_response option" where
  "nextScroll es tr scrollId = gotEs (es tr scrollId)"

definition closeScroll ::
  "('c, 'h) close_store \<Rightarrow> ('c, 'h) scroll_event list \<Rightarrow> 'c list \<Rightarrow> 'x os_error + unit" where
  "closeScroll es tr scrollId =
     (case gotEs (es tr scrollId) of
        Inl e \<Rightarrow> Inl e
      | Inr rawResponse \<Rightarrow> (case rawResponse of None \<Rightarrow> Inl ZodParseError | Some u \<Rightarrow> Inr u))"

text \<open>
  The body of the \<open>try\<close>: the \<open>while (hits.length > 0)\<close> loop. \<open>scrollId\<close> is the
  constant bound before the loop; \<open>None\<close> is a scan that never ends.
\<close>

partial_function (option) scrollMap_loop ::
  "('c, 'h, 'x) hit_handler \<Rightarrow> PMapOptions \<Rightarrow> ('c, 'h) scroll_store \<Rightarrow> 'c list \<Rightarrow> 'h list
     \<Rightarrow> ('c, 'h) scroll_event list \<Rightarrow> (('x os_error + unit) \<times> ('c, 'h) scroll_event list) option"
  where
  "scrollMap_loop f pMapOptions es scrollId hs tr =
     (if length hs > 0 then
        (case pMap hs f pMapOptions tr of
           (Some e, tr1) \<Rightarrow> Some (Inl e, tr1)
         | (None, tr1) \<Rightarrow>
             (let tr2 = tr1 @ [NextScrollRequest scrollId] in
              case nextScroll es tr1 scrollId of
                Inl e \<Rightarrow> Some (Inl e, tr2)
              | Inr raw \<Rightarrow>
                  (case raw of
                     None \<Rightarrow> Some (Inl ZodParseError, tr2)
                   | Some nextScrollResponse \<Rightarrow>
                       scrollMap_loop f pMapOptions es scrollId (hits nextScrollResponse)
                         (tr2 @ [ScrollPage (scroll_id nextScrollResponse)
                                   (hits nextScrollResponse)]))))
      else Some (Inr (), tr))"

declare scrollMap_loop.simps [code]

text \<open>
  \<open>scrollMap\<close>: \<open>openScroll\<close> and the validation of its response come before the
  \<open>try\<close>; the \<open>finally\<close> block awaits \<open>closeScroll\<close>, and a failure of that call
  replaces the outcome of the loop. The three stores stand for \<open>esUrl\<close>; a
  \<open>scrollOptions\<close> that is left out is the record without any option. An event of
  the run is a call of the client: \<open>got\<close> may send the \<open>DELETE\<close> of one
  \<open>closeScroll\<close> call again before the call settles.
\<close>

definition scrollMap ::
  "('c open_scroll_request \<Rightarrow> ('c, 'h) scroll_response option reply) \<Rightarrow> ('c, 'h) scroll_store
     \<Rightarrow> ('c, 'h) close_store \<Rightarrow> 'c list \<Rightarrow> ('c, 'h, 'x) hit_handler \<Rightarrow> PMapOptions
     \<Rightarrow> OpenScrollOptions \<Rightarrow> (('x os_error + unit) \<times> ('c, 'h) scroll_event list) option" where
  "scrollMap es_open es_next es_close index f pMapOptions scrollOptions =
     (case openScroll es_open index scrollOptions of
        (request, Inl e) \<Rightarrow> Some (Inl e, [OpenScrollRequest request])
      | (request, Inr rawOpenScrollResponse) \<Rightarrow>
          (case rawOpenScrollResponse of
             None \<Rightarrow> Some (Inl ZodParseError, [OpenScrollRequest request])
           | Some openScrollResponse \<Rightarrow>
               (let scrollId = scroll_id openScrollResponse;
                    hs = hits openScrollResponse
                in case scrollMap_loop f pMapOptions es_next scrollId hs
                          [OpenScrollRequest request, ScrollPage scrollId hs] of
                     None \<Rightarrow> None
                   | Some (res, tr) \<Rightarrow>
                       (case closeScroll es_close tr scrollId of
                          Inl e \<Rightarrow> Some (Inl e, tr @ [CloseScrollRequest scrollId])
                        | Inr u \<Rightarrow> Some (res, tr @ [CloseScrollRequest scrollId])))))"

text \<open>Projections of a run, used to state what it did.\<close>

fun closeCalls :: "('c, 'h) scroll_event list \<Rightarrow> 'c list list" where
  "closeCalls [] = []"
| "closeCalls (CloseScrollRequest s # tr) = s # closeCalls tr"
| "closeCalls (e # tr) = closeCalls tr"

fun handlerCalls :: "('c, 'h) scroll_event list \<Rightarrow> 'h list" where
  "handlerCalls [] = []"
| "handlerCalls (HandlerCall h # tr) = h # handlerCalls tr"
| "handlerCalls (e # tr) = handlerCalls tr"

fun pagesReceived :: "('c, 'h) scroll_event list \<Rightarrow> 'h list list" where
  "pagesReceived [] = []"
| "pagesReceived (ScrollPage s hs # tr) = hs # pagesReceived tr"
| "pagesReceived (e # tr) = pagesReceived tr"

text \<open>
  \<open>cursorsFollowed c tr\<close>: every \<open>nextScroll\<close> request of \<open>tr\<close> carries the scroll id
  of the page received last before it, \<open>c\<close> being the id received last before \<open>tr\<close>.
\<close>

fun cursorsFollowed :: "'c list \<Rightarrow> ('c, 'h) scroll_event list \<Rightarrow> bool" where
  "cursorsFollowed c [] = True"
| "cursorsFollowed c (ScrollPage s hs # tr) = cursorsFollowed s tr"
| "cursorsFollowed c (NextScrollRequest s # tr) = (s = c \<and> cursorsFollowed c tr)"
| "cursorsFollowed c (e # tr) = cursorsFollowed c tr"

subsection \<open>\<open>percolateDocumentFields\<close>\<close>

record 'c percolate_fields =
  pf_title :: "'c list"
  pf_contents :: "'c list"

record PercolateDocumentFieldsOptions =
  opt_from :: "int option"
  opt_size :: "int option"

text \<open>The request: the index in the path, and the \<open>body\<close> object.\<close>

record 'c percolate_request =
  pr_index :: "'c list"
  pr_percolate_field :: string
  pr_percolate_document :: "'c percolate_fields"
  pr_from :: int
  pr_size :: int

text \<open>The \<open>_source\<close> of one hit accepted by \<open>percolateResponseSchema\<close>.\<close>

record 'c percolate_source =
  ps_query_multi_match_query :: "'c list"
  ps_uri :: "'c list"
  ps_source_terminology :: "'c list"
  ps_namedGraphUri :: "'c list"

record 'c DocumentItemTerm =
  dit_label :: "'c list"
  dit_uri :: "'c list"
  dit_source_terminology :: "'c list"
  dit_namedGraphUri :: "'c list"

text \<open>
  The result is the request that was sent and the outcome. The \<open>catch\<close> after the
  post logs an HTTP error and throws it again; a response that \<open>safeParse\<close> rejects is
  thrown as the parse error.
\<close>

definition percolateDocumentFields ::
  "('c percolate_request \<Rightarrow> 'c percolate_source list option reply) \<Rightarrow> 'c list
     \<Rightarrow> 'c percolate_fields \<Rightarrow> PercolateDocumentFieldsOptions
     \<Rightarrow> 'c percolate_request \<times> ('x os_error + 'c DocumentItemTerm list)" where
  "percolateDocumentFields es termsIndexName documentFields options =
     (let from' = (case opt_from options of None \<Rightarrow> 0 | Some v \<Rightarrow> v);
          size' = (case opt_size options of None \<Rightarrow> 300 | Some v \<Rightarrow> v);
          request = \<lparr>pr_index = termsIndexName,
                     pr_percolate_field = ''query'',
                     pr_percolate_document = documentFields,
                     pr_from = from',
                     pr_size = size'\<rparr>
      in (request,
          case gotEs (es request) of
            Inl e \<Rightarrow> Inl e
          | Inr rawPercolateResponse \<Rightarrow>
              (case rawPercolateResponse of
                 None \<Rightarrow> Inl ZodParseError
               | Some hs \<Rightarrow>
                   Inr (map (\<lambda>h. \<lparr>dit_label = ps_query_multi_match_query h,
                                    dit_uri = ps_uri h,
                                    dit_source_terminology = ps_source_terminology h,
                                    dit_namedGraphUri = ps_namedGraphUri h\<rparr>) hs))))"

subsection \<open>\<open>createIndex\<close> and \<open>putDocumentItem\<close>\<close>

text \<open>
  \<open>createIndex\<close> reads the status and the body itself (\<open>throwHttpErrors: false\<close>).
  The body of the reply is \<open>get(body, 'error.type')\<close>: \<open>None\<close> when the path is
  undefined, in which case the message is the default \<open>Unexpected <status> response: ...\<close>.
\<close>

definition createIndex :: "string option reply \<Rightarrow> 'x os_error + unit" where
  "createIndex r =
     (case r of
        NetworkError \<Rightarrow> Inl GotRequestError
      | Reply statusCode error_type \<Rightarrow>
          if statusCode = 200 then Inr ()
          else (case error_type of
                  None \<Rightarrow> Inl (UnexpectedResponse statusCode)
                | Some errorMessage \<Rightarrow>
                    if errorMessage = ''resource_already_exists_exception'' then Inr ()
                    else Inl (CreateIndexError errorMessage)))"

text \<open>
  \<open>putDocumentItem\<close>: the \<open>catch\<close> after the post logs an HTTP error and returns
  nothing, so that \<open>rawResponse\<close> is \<open>undefined\<close> after any rejection, and
  \<open>putDocumentItemResponseSchema.parse\<close> is applied to it. The schema is declared in
  open-search-schemas, which is not among the sources: \<open>parseUndefined\<close> is what it makes
  of \<open>undefined\<close>, and the body of the reply is what it makes of the response.
\<close>

definition putDocumentItem :: "'p option \<Rightarrow> 'p option reply \<Rightarrow> 'x os_error + 'p" where
  "putDocumentItem parseUndefined r =
     (let parsed = (case (gotEs r :: 'x os_error + 'p option) of
                      Inl e \<Rightarrow> parseUndefined
                    | Inr rawResponse \<Rightarrow> rawResponse)
      in case parsed of None \<Rightarrow> Inl ZodParseError | Some p \<Rightarrow> Inr p)"

section \<open>Keyword search endpoint (search handler)\<close>

text \<open>
  The values an option of the search can hold: \<open>parseParams\<close> passes some query
  parameters through as the strings they are and replaces others by numbers or
  booleans. \<open>truthy\<close> is the language's conversion to a boolean in a condition.
\<close>

datatype js_value = JSBool bool | JSNumber int | JSString string

fun truthy :: "js_value \<Rightarrow> bool" where
  "truthy (JSBool b) = b"
| "truthy (JSNumber n) = (n \<noteq> 0)"
| "truthy (JSString s) = (s \<noteq> [])"

text \<open>\<open>event.queryStringParameters\<close>: each parameter is a string or undefined.\<close>

record query_params =
  p_keywords :: "string option"
  p_term :: "string option"
  p_termURI :: "string option"
  p_from :: "string option"
  p_size :: "string option"
  p_sort :: "string option"
  p_fields :: "string option"
  p_synonyms :: "string option"
  p_refereed :: "string option"
  p_endorsed :: "string option"

record SearchOptions =
  so_keywords :: "string list"
  so_terms :: "string list"
  so_termURIs :: "string list"
  so_from :: js_value
  so_size :: js_value
  so_sort :: "string list"
  so_fields :: "string list"
  so_synonyms :: js_value
  so_refereed :: js_value
  so_endorsed :: js_value

text \<open>\<open>s.split(sep)\<close> for a separator of one character: the empty string gives \<open>[""]\<close>.\<close>

fun split :: "char \<Rightarrow> string \<Rightarrow> string list" where
  "split sep [] = [[]]"
| "split sep (c # cs) =
     (if c = sep then [] # split sep cs
      else (case split sep cs of [] \<Rightarrow> [[c]] | w # ws \<Rightarrow> (c # w) # ws))"

definition DEFAULT_FROM :: int where
  "DEFAULT_FROM = 0"

definition DEFAULT_SIZE :: int where
  "DEFAULT_SIZE = 20"

text \<open>
  \<open>defaultSearchFields\<close> is imported from search-fields, which is not among the
  sources; it is a parameter.
\<close>

definition parseParams :: "string list \<Rightarrow> query_params \<Rightarrow> SearchOptions" where
  "parseParams defaultSearchFields params =
     \<lparr>so_keywords = (case p_keywords params of
                       None \<Rightarrow> []
                     | Some k \<Rightarrow> if length k > 0 then split CHR '','' k else []),
      so_terms = (case p_term params of None \<Rightarrow> [] | Some t \<Rightarrow> split CHR '','' t),
      so_termURIs = (case p_termURI params of None \<Rightarrow> [] | Some t \<Rightarrow> split CHR '','' t),
      so_from = (case p_from params of None \<Rightarrow> JSNumber DEFAULT_FROM | Some v \<Rightarrow> JSString v),
      so_size = (case p_size params of None \<Rightarrow> JSNumber DEFAULT_SIZE | Some v \<Rightarrow> JSString v),
      so_sort = (case p_sort params of None \<Rightarrow> [] | Some v \<Rightarrow> split CHR '','' v),
      so_fields = (case p_fields params of
                     None \<Rightarrow> defaultSearchFields
                   | Some v \<Rightarrow> split CHR '','' v),
      so_synonyms = (case p_synonyms params of None \<Rightarrow> JSBool False | Some v \<Rightarrow> JSString v),
      so_refereed = (case p_refereed params of None \<Rightarrow> JSBool False | Some v \<Rightarrow> JSString v),
      so_endorsed = JSBool (p_endorsed params = Some ''true'')\<rparr>"

subsection \<open>Synonym expansion\<close>

text \<open>
  What \<open>JSON.parse\<close> returns: a JSON value. An object is the list of its members as
  they are written; of two members with the same name the later one counts. A value
  of the program that may be \<open>undefined\<close> is a \<open>json option\<close>.
\<close>

datatype json =
    JNull
  | JBool bool
  | JNumber int
  | JString string
  | JArray "json list"
  | JObject "(string \<times> json) list"

datatype handler_error =
    EnvNotSet string
  | TypeError
  | SyntaxError
  | ResponseStreamError
  | UnhandledRequestError

text \<open>
  The property read \<open>v[name]\<close>, for the names the handler reads (\<open>results\<close>,
  \<open>bindings\<close>, \<open>value\<close> and the three variables of the query): it throws on
  \<open>undefined\<close> and on \<open>null\<close>, it is the member of an object, and it is
  \<open>undefined\<close> on a boolean, a number, a string or an array, which have no property
  of these names.
\<close>

fun getProp :: "json option \<Rightarrow> string \<Rightarrow> handler_error + json option" where
  "getProp None name = Inl TypeError"
| "getProp (Some JNull) name = Inl TypeError"
| "getProp (Some (JObject members)) name = Inr (map_of (rev members) name)"
| "getProp (Some v) name = Inr None"

text \<open>
  What \<open>for (const r of results)\<close> goes through: the elements of an array, the
  characters of a string (each a string of its own); any other value is not iterable
  and the loop throws.
\<close>

fun forOf :: "json option \<Rightarrow> handler_error + json list" where
  "forOf (Some (JArray elements)) = Inr elements"
| "forOf (Some (JString s)) = Inr (map (\<lambda>c. JString [c]) s)"
| "forOf v = Inl TypeError"

text \<open>
  The loop of \<open>parseSynonymsResponse\<close>. What it pushes is the \<open>value\<close> it reads,
  a string in the results of a graph store, but any JSON value or \<open>undefined\<close> in
  general.
\<close>

fun parseSynonymsResponse_loop ::
  "json list \<Rightarrow> json option list \<Rightarrow> handler_error + json option list" where
  "parseSynonymsResponse_loop [] synonyms = Inr synonyms"
| "parseSynonymsResponse_loop (r # rs) synonyms =
     (case getProp (Some r) ''annotatedPropertyLabel'' of
        Inl e \<Rightarrow> Inl e
      | Inr (Some l) \<Rightarrow>
          (case getProp (Some l) ''value'' of
             Inl e \<Rightarrow> Inl e
           | Inr v \<Rightarrow>
               if v = Some (JString ''has_exact_synonym'') \<or> v = Some (JString ''alternative_label'')
               then
                 (case getProp (Some r) ''annotatedTarget'' of
                    Inl e \<Rightarrow> Inl e
                  | Inr t \<Rightarrow>
                      (case getProp t ''value'' of
                         Inl e \<Rightarrow> Inl e
                       | Inr tv \<Rightarrow> parseSynonymsResponse_loop rs (synonyms @ [tv])))
               else parseSynonymsResponse_loop rs synonyms)
      | Inr None \<Rightarrow>
          (case getProp (Some r) ''sameAsLabel'' of
             Inl e \<Rightarrow> Inl e
           | Inr None \<Rightarrow> parseSynonymsResponse_loop rs synonyms
           | Inr (Some sl) \<Rightarrow>
               (case getProp (Some sl) ''value'' of
                  Inl e \<Rightarrow> Inl e
                | Inr sv \<Rightarrow> parseSynonymsResponse_loop rs (synonyms @ [sv]))))"

definition parseSynonymsResponse :: "json \<Rightarrow> handler_error + json option list" where
  "parseSynonymsResponse body =
     (case getProp (Some body) ''results'' of
        Inl e \<Rightarrow> Inl e
      | Inr body_results \<Rightarrow>
          (case getProp body_results ''bindings'' of
             Inl e \<Rightarrow> Inl e
           | Inr results \<Rightarrow>
               (case forOf results of
                  Inl e \<Rightarrow> Inl e
                | Inr rs \<Rightarrow> parseSynonymsResponse_loop rs [])))"

text \<open>
  What the graph store does with the \<open>https.get\<close> of one keyword (the query text
  is \<open>buildSynonymsQuery\<close> of the keyword, so the keyword stands for the request): the
  request fails before a response (the request's \<open>error\<close> event, which has no
  listener), the response stream fails (\<open>res.on('error')\<close>), or the response ends
  with a body, which is JSON text (\<open>Some\<close> of the value \<open>JSON.parse\<close> returns) or
  not. The status code is not read.
\<close>

datatype syn_reply = RequestFailed | ResponseError | ResponseEnd "json option"

text \<open>
  A promise resolves, rejects, or never settles: an exception thrown in an event
  listener (\<open>JSON.parse\<close> and \<open>parseSynonymsResponse\<close> run in the \<open>end\<close> listener)
  is not a rejection, it leaves the promise pending and reaches the process as an
  uncaught exception.
\<close>

datatype 'a promise = Resolved 'a | Rejected handler_error | Pending

definition queryPromise :: "(string \<Rightarrow> syn_reply) \<Rightarrow> string \<Rightarrow> json option list promise" where
  "queryPromise graph k =
     (case graph k of
        RequestFailed \<Rightarrow> Pending
      | ResponseError \<Rightarrow> Rejected ResponseStreamError
      | ResponseEnd b \<Rightarrow>
          (case b of
             None \<Rightarrow> Pending
           | Some parsed \<Rightarrow>
               (case parseSynonymsResponse parsed of
                  Inl e \<Rightarrow> Pending
                | Inr synonyms \<Rightarrow> Resolved synonyms)))"

text \<open>
  \<open>Promise.all\<close>: resolved when every promise is, rejected as soon as one rejects (the
  first in the list here: the order in time of concurrent queries is not modelled),
  pending otherwise.
\<close>

fun promiseAll :: "'a promise list \<Rightarrow> 'a list promise" where
  "promiseAll [] = Resolved []"
| "promiseAll (p # ps) =
     (case p of
        Rejected e \<Rightarrow> Rejected e
      | Resolved a \<Rightarrow>
          (case promiseAll ps of
             Resolved as \<Rightarrow> Resolved (a # as)
           | Rejected e \<Rightarrow> Rejected e
           | Pending \<Rightarrow> Pending)
      | Pending \<Rightarrow>
          (case promiseAll ps of
             Rejected e \<Rightarrow> Rejected e
           | Resolved as \<Rightarrow> Pending
           | Pending \<Rightarrow> Pending))"

text \<open>
  The loop of \<open>getSynonyms\<close>: for each keyword one \<open>https.get\<close> is sent and its
  promise pushed. The result of \<open>getSynonyms\<close> is the keywords for which a query was
  sent, in order, and the promise of \<open>Promise.all\<close>.
\<close>

fun getSynonyms_loop ::
  "(string \<Rightarrow> syn_reply) \<Rightarrow> string list \<Rightarrow> string list \<Rightarrow> json option list promise list
     \<Rightarrow> string list \<times> json option list promise list" where
  "getSynonyms_loop graph [] sent promises = (sent, promises)"
| "getSynonyms_loop graph (k # ks) sent promises =
     getSynonyms_loop graph ks (sent @ [k]) (promises @ [queryPromise graph k])"

definition getSynonyms ::
  "(string \<Rightarrow> syn_reply) \<Rightarrow> string list \<Rightarrow> string list \<times> json option list list promise" where
  "getSynonyms graph keywords =
     (case getSynonyms_loop graph keywords [] [] of
        (sent, promises) \<Rightarrow> (sent, promiseAll promises))"

subsection \<open>The handler\<close>

datatype 'r response_body = EmptyObject | SearchResults 'r | ErrObject handler_error

record 'r response =
  statusCode :: nat
  body :: "'r response_body"
  headers :: "(string \<times> string) list"

definition responseHeaders :: "(string \<times> string) list" where
  "responseHeaders = [(''Access-Control-Allow-Origin'', ''*''),
                      (''Access-Control-Allow-Credentials'', ''true'')]"

text \<open>
  How an invocation ends: the handler throws, it calls \<open>callback(error, response)\<close>, or
  it never calls it (a promise it waits for stays pending, or a rejection has no
  handler).
\<close>

datatype 'r handler_outcome =
    Threw handler_error
  | Callback "handler_error option" "'r response"
  | NoCallback

text \<open>
  What is posted to the index store: the document that \<open>buildSearchDocument\<close> makes
  of the options. The options are a \<open>SearchOptions\<close> as long as the keywords are
  strings; when the synonym expansion has pushed a value that is not a string, what is
  posted is the document of the parsed options with the list of keywords given beside
  them, which is not constructed here.
\<close>

datatype 'q search_request =
    SearchDocument 'q
  | SearchOfMixedKeywords SearchOptions "json option list"

text \<open>
  A run of the handler: the keywords for which a synonyms query was sent, the search
  documents that were posted to the index store, and how the invocation ended.
\<close>

record ('q, 'r) handler_run =
  synonymQueries :: "string list"
  searchRequests :: "'q search_request list"
  outcome :: "'r handler_outcome"

text \<open>
  \<open>getStringFromEnv\<close> is in env-utils, which is not among the sources; the sparql
  handler of this repository catches what it throws for a variable that is not set.
\<close>

definition getStringFromEnv :: "(string \<Rightarrow> string option) \<Rightarrow> string \<Rightarrow> handler_error + string" where
  "getStringFromEnv env name = (case env name of None \<Rightarrow> Inl (EnvNotSet name) | Some v \<Rightarrow> Inr v)"

text \<open>
  \<open>executeSearch\<close>: \<open>buildSearchDocument\<close> is in search-document-builder, which is
  not among the sources, and is a parameter here; \<open>osClient.searchByQuery\<close> posts the
  document with \<open>gotEs\<close>.
\<close>

definition executeSearch ::
  "(SearchOptions \<Rightarrow> 'q) \<Rightarrow> ('q search_request \<Rightarrow> 'r reply) \<Rightarrow> SearchOptions
     \<Rightarrow> unit os_error + 'r" where
  "executeSearch buildSearchDocument es options =
     gotEs (es (SearchDocument (buildSearchDocument options)))"

text \<open>The strings of a list of values, when all of them are strings.\<close>

fun stringsOf :: "json option list \<Rightarrow> string list option" where
  "stringsOf [] = Some []"
| "stringsOf (Some (JString s) # vs) =
     (case stringsOf vs of None \<Rightarrow> None | Some ss \<Rightarrow> Some (s # ss))"
| "stringsOf (v # vs) = None"

text \<open>
  The handler. In the branch of the synonyms, \<open>keywords\<close> is the list of the parsed
  keywords followed by what each query has resolved with, and it replaces the keywords
  of the options before \<open>executeSearch\<close>.
\<close>

definition handler ::
  "(string \<Rightarrow> string option) \<Rightarrow> string list \<Rightarrow> (SearchOptions \<Rightarrow> 'q) \<Rightarrow> (string \<Rightarrow> syn_reply)
     \<Rightarrow> ('q search_request \<Rightarrow> 'r reply) \<Rightarrow> query_params option \<Rightarrow> ('q, 'r) handler_run" where
  "handler env defaultSearchFields buildSearchDocument graph es queryStringParameters =
     (case getStringFromEnv env ''DOCUMENTS_INDEX_NAME'' of
        Inl e \<Rightarrow> \<lparr>synonymQueries = [], searchRequests = [], outcome = Threw e\<rparr>
      | Inr documentsIndexName \<Rightarrow>
     (case getStringFromEnv env ''OPEN_SEARCH_ENDPOINT'' of
        Inl e \<Rightarrow> \<lparr>synonymQueries = [], searchRequests = [], outcome = Threw e\<rparr>
      | Inr openSearchEndpoint \<Rightarrow>
     (case queryStringParameters of
        None \<Rightarrow>
          \<lparr>synonymQueries = [], searchRequests = [],
           outcome = Callback None \<lparr>statusCode = 200, body = EmptyObject,
                                    headers = responseHeaders\<rparr>\<rparr>
      | Some params \<Rightarrow>
          if p_keywords params = None then
            \<lparr>synonymQueries = [], searchRequests = [],
             outcome = Callback None \<lparr>statusCode = 200, body = EmptyObject,
                                    headers = responseHeaders\<rparr>\<rparr>
          else
            (let opts = parseParams defaultSearchFields params in
             if truthy (so_synonyms opts) then
               (case getSynonyms graph (so_keywords opts) of
                  (queries, Resolved results) \<Rightarrow>
                    (case stringsOf (concat results) of
                       Some synonyms \<Rightarrow>
                         (let keywords = so_keywords opts @ synonyms;
                              opts' = opts\<lparr>so_keywords := keywords\<rparr>
                          in \<lparr>synonymQueries = queries,
                              searchRequests = [SearchDocument (buildSearchDocument opts')],
                              outcome =
                                (case executeSearch buildSearchDocument es opts' of
                                   Inr searchResults \<Rightarrow>
                                     Callback None
                                       \<lparr>statusCode = 200, body = SearchResults searchResults,
                                        headers = responseHeaders\<rparr>
                                 | Inl e \<Rightarrow> NoCallback)\<rparr>)
                     | None \<Rightarrow>
                         (let keywords = map (\<lambda>k. Some (JString k)) (so_keywords opts)
                                         @ concat results
                          in \<lparr>synonymQueries = queries,
                              searchRequests = [SearchOfMixedKeywords opts keywords],
                              outcome =
                                (case (gotEs (es (SearchOfMixedKeywords opts keywords))
                                         :: unit os_error + 'r) of
                                   Inr searchResults \<Rightarrow>
                                     Callback None
                                       \<lparr>statusCode = 200, body = SearchResults searchResults,
                                        headers = responseHeaders\<rparr>
                                 | Inl e \<Rightarrow> NoCallback)\<rparr>))
                | (queries, Rejected error) \<Rightarrow>
                    \<lparr>synonymQueries = queries, searchRequests = [],
                     outcome = Callback (Some error)
                                 \<lparr>statusCode = 500, body = ErrObject error,
                                  headers = responseHeaders\<rparr>\<rparr>
                | (queries, Pending) \<Rightarrow>
                    \<lparr>synonymQueries = queries, searchRequests = [],
                     outcome = NoCallback\<rparr>)
             else
               \<lparr>synonymQueries = [],
                searchRequests = [SearchDocument (buildSearchDocument opts)],
                outcome =
                  (case executeSearch buildSearchDocument es opts of
                     Inr searchResults \<Rightarrow>
                       Callback None \<lparr>statusCode = 200, body = SearchResults searchResults,
                                             headers = responseHeaders\<rparr>
                   | Inl e \<Rightarrow> NoCallback)\<rparr>))))"

subsection \<open>Search document builder\<close>

text \<open>
  The search document, in the shape of the document the builder's test expects: a
  filter clause is \<open>{nested: {path, query: {match: {field: value}}}}\<close> or
  \<open>{exists: {field}}\<close>, a sort key is \<open>{field: direction}\<close> or \<open>'_score'\<close>.
\<close>

datatype filter_clause = Nested string string string | Exists string

datatype sort_key = SortField string string | SortScore

record query_string =
  qs_fields :: "string list"
  qs_query :: string

record search_document =
  sd_from :: js_value
  sd_size :: js_value
  sd_query_bool_must :: "query_string option"
  sd_query_bool_filter :: "filter_clause list"
  sd_highlight_fields :: "string list"
  sd_sort :: "sort_key list"
  sd_source_excludes :: "string list"

text \<open>
  Modelled from the spec: part of the builder, which is not among the sources. A
  keyword as a quoted phrase: the keyword between double quotes, after a space (the
  spacing of the query string the test expects).
\<close>

definition formatKeyword :: "string \<Rightarrow> string" where
  "formatKeyword k = [CHR '' '', CHR 0x22] @ k @ [CHR 0x22]"

text \<open>Modelled from the spec: part of the builder; the phrases are joined by a space.\<close>

fun joinWith :: "string \<Rightarrow> string list \<Rightarrow> string" where
  "joinWith sep [] = []"
| "joinWith sep [x] = x"
| "joinWith sep (x # y # ys) = x @ sep @ joinWith sep (y # ys)"

text \<open>
  Modelled from the spec: part of the builder; a sort entry \<open>field:direction\<close> becomes
  the pair of what stands before and after its first colon.
\<close>

definition sortKey :: "string \<Rightarrow> sort_key" where
  "sortKey s = SortField (takeWhile (\<lambda>c. c \<noteq> CHR '':'') s)
                         (drop 1 (dropWhile (\<lambda>c. c \<noteq> CHR '':'') s))"

text \<open>
  Modelled from the spec: the builder itself (search-query-builder, imported by the
  test as \<open>buildDocumentSearchQuery\<close>, and search-document-builder, imported by the
  handler) is not among the sources; only its test is. The rules are those of the
  spec's section on the Search Document Builder, and the literal field names and the
  spacing of the query string are those of the document the test expects:
  a \<open>query_string\<close> over \<open>fields\<close> of the quoted keywords joined by a space when there
  are keywords; one nested \<open>_terms.label\<close> filter for each term, then one nested
  \<open>_terms.uri\<close> filter for each term URI, then an \<open>exists\<close> filter for a truthy
  \<open>refereed\<close> and one for a truthy \<open>endorsed\<close>; \<open>from\<close>, \<open>size\<close>, the highlight on
  the extracted text, the sort pairs followed by \<open>_score\<close>, and the excluded fields.
\<close>

definition buildDocumentSearchQuery :: "SearchOptions \<Rightarrow> search_document" where
  "buildDocumentSearchQuery options =
     \<lparr>sd_from = so_from options,
      sd_size = so_size options,
      sd_query_bool_must =
        (if so_keywords options = [] then None
         else Some \<lparr>qs_fields = so_fields options,
                     qs_query = joinWith '' '' (map formatKeyword (so_keywords options))\<rparr>),
      sd_query_bool_filter =
        map (\<lambda>t. Nested ''_terms'' ''_terms.label'' t) (so_terms options)
        @ map (\<lambda>u. Nested ''_terms'' ''_terms.uri'' u) (so_termURIs options)
        @ (if truthy (so_refereed options) then [Exists ''dc_description_refereed''] else [])
        @ (if truthy (so_endorsed options)
           then [Exists ''obps_endorsementExternal_externalEndorsedBy''] else []),
      sd_highlight_fields = [''_bitstreamText''],
      sd_sort = map sortKey (so_sort options) @ [SortScore],
      sd_source_excludes = [''_bitstreamText'', ''bitstreams'', ''metadata'']\<rparr>"

section \<open>Statements of the synonym expansion in the words of the specification\<close>

text \<open>
  The definitions of this section read a response of the graph store as a document,
  without the program: the member of an object, the bindings of a results document,
  and the string value of a variable in a binding.
\<close>

fun member_spec :: "json \<Rightarrow> string \<Rightarrow> json option" where
  "member_spec (JObject members) name = map_of (rev members) name"
| "member_spec v name = None"

definition bindingsOf_spec :: "json \<Rightarrow> json list option" where
  "bindingsOf_spec document =
     (case member_spec document ''results'' of
        None \<Rightarrow> None
      | Some results \<Rightarrow>
          (case member_spec results ''bindings'' of
             Some (JArray bindings) \<Rightarrow> Some bindings
           | _ \<Rightarrow> None))"

definition valueOf_spec :: "json \<Rightarrow> string \<Rightarrow> string option" where
  "valueOf_spec binding variable =
     (case member_spec binding variable of
        None \<Rightarrow> None
      | Some bound \<Rightarrow>
          (case member_spec bound ''value'' of
             Some (JString s) \<Rightarrow> Some s
           | _ \<Rightarrow> None))"

text \<open>
  A binding as the synonyms query produces it: the query is a \<open>UNION\<close> of two
  patterns, so a solution binds either \<open>sameAsLabel\<close> alone, or \<open>annotatedTarget\<close>
  (with \<open>annotatedPropertyLabel\<close> when the property has a label); what is bound has
  a string as its value.
\<close>

definition fromSynonymsQuery :: "json \<Rightarrow> bool" where
  "fromSynonymsQuery binding =
     (case member_spec binding ''sameAsLabel'' of
        Some bound \<Rightarrow>
          valueOf_spec binding ''sameAsLabel'' \<noteq> None
          \<and> member_spec binding ''annotatedPropertyLabel'' = None
          \<and> member_spec binding ''annotatedTarget'' = None
      | None \<Rightarrow>
          valueOf_spec binding ''annotatedTarget'' \<noteq> None
          \<and> (member_spec binding ''annotatedPropertyLabel'' = None
             \<or> valueOf_spec binding ''annotatedPropertyLabel'' \<noteq> None))"

text \<open>
  The synonyms of one binding as the specification words them: the annotation target
  when the label of the annotation property is the exact-synonym or the
  alternative-label property, and the preferred label of an equivalent concept.
\<close>

definition synonymsOfBinding_spec :: "json \<Rightarrow> string list" where
  "synonymsOfBinding_spec binding =
     (case valueOf_spec binding ''annotatedTarget'' of
        Some t \<Rightarrow>
          if valueOf_spec binding ''annotatedPropertyLabel'' = Some ''has_exact_synonym''
             \<or> valueOf_spec binding ''annotatedPropertyLabel'' = Some ''alternative_label''
          then [t] else []
      | None \<Rightarrow> [])
     @ (case valueOf_spec binding ''sameAsLabel'' of Some s \<Rightarrow> [s] | None \<Rightarrow> [])"

definition synonymsOfKeyword_spec :: "(string \<Rightarrow> syn_reply) \<Rightarrow> string \<Rightarrow> string list" where
  "synonymsOfKeyword_spec graph k =
     (case graph k of
        ResponseEnd (Some document) \<Rightarrow>
          (case bindingsOf_spec document of
             Some bindings \<Rightarrow> concat (map synonymsOfBinding_spec bindings)
           | None \<Rightarrow> [])
      | _ \<Rightarrow> [])"

text \<open>
  The query of a keyword is answered: the response ends with a results document whose
  bindings are as the query produces them.
\<close>

definition queryAnswered_spec :: "(string \<Rightarrow> syn_reply) \<Rightarrow> string \<Rightarrow> bool" where
  "queryAnswered_spec graph k =
     (case graph k of
        ResponseEnd (Some document) \<Rightarrow>
          (case bindingsOf_spec document of
             Some bindings \<Rightarrow> list_all fromSynonymsQuery bindings
           | None \<Rightarrow> False)
      | _ \<Rightarrow> False)"

text \<open>
  The query of a keyword fails: the request fails, the response stream fails, the body
  is not JSON text, or the body is a document without a list at \<open>results.bindings\<close>
  (a string there is read as a list without bindings by the program, and is no failure
  here).
\<close>

definition queryFails_spec :: "(string \<Rightarrow> syn_reply) \<Rightarrow> string \<Rightarrow> bool" where
  "queryFails_spec graph k =
     (case graph k of
        RequestFailed \<Rightarrow> True
      | ResponseError \<Rightarrow> True
      | ResponseEnd None \<Rightarrow> True
      | ResponseEnd (Some document) \<Rightarrow>
          (case member_spec document ''results'' of
             None \<Rightarrow> True
           | Some results \<Rightarrow>
               (case member_spec results ''bindings'' of
                  Some (JArray bindings) \<Rightarrow> False
                | Some (JString s) \<Rightarrow> False
                | _ \<Rightarrow> True)))"

section \<open>Example inputs\<close>

text \<open>The page of the term-filtering example, served at offset 0 of a one-page listing.\<close>

definition ex_page :: "char binding list" where
  "ex_page = [\<lparr>slabel_value = ''ok'', s_value = ''http://v/ok''\<rparr>,
              \<lparr>slabel_value = ''a'', s_value = ''http://v/a''\<rparr>,
              \<lparr>slabel_value = ''seawater'', s_value = ''http://v/seawater''\<rparr>,
              \<lparr>slabel_value = ''the'', s_value = ''http://v/the''\<rparr>]"

definition ex_sparql :: "char sparql_store" where
  "ex_sparql off = (if off = 0 then Reply 200 (Some ex_page) else Reply 200 (Some []))"

definition ex_es :: "char bulk_store" where
  "ex_es tr b = Reply 200 ()"

definition ex_params :: "char CreateTermIndexParams" where
  "ex_params = \<lparr>namedGraphUri = ''http://g'', terminologyTitle = ''V'', indexName = ''terms'',
                stopwords = [''the'']\<rparr>"

text \<open>
  A scroll of two pages whose second response carries a new scroll id, and a third,
  empty page.
\<close>

definition ex_open :: "char open_scroll_request \<Rightarrow> (char, nat) scroll_response option reply" where
  "ex_open request = Reply 200 (Some \<lparr>scroll_id = ''A'', hits = [1, 2]\<rparr>)"

definition no_options :: OpenScrollOptions where
  "no_options = \<lparr>oso_includes = None, oso_scrollTimeout = None, oso_size = None\<rparr>"

definition ex_request :: "char open_scroll_request" where
  "ex_request = \<lparr>osr_index = ''documents'', osr_scroll_minutes = 60,
                  osr_source_includes = [''*''], osr_size = 500\<rparr>"

definition ex_next :: "(char, nat) scroll_store" where
  "ex_next tr scrollId =
     (if length (pagesReceived tr) < 2
      then Reply 200 (Some \<lparr>scroll_id = ''B'', hits = [3, 4]\<rparr>)
      else Reply 200 (Some \<lparr>scroll_id = ''C'', hits = []\<rparr>))"

definition no_pMapOptions :: PMapOptions where
  "no_pMapOptions = \<lparr>pmo_concurrency = None, pmo_stopOnError = None\<rparr>"

definition ex_close :: "(char, nat) close_store" where
  "ex_close tr scrollId = Reply 200 (Some ())"

definition ex_f_ok :: "(char, nat, string) hit_handler" where
  "ex_f_ok tr h = None"

definition ex_f_throws :: "(char, nat, string) hit_handler" where
  "ex_f_throws tr h = (if h = 3 then Some ''boom'' else None)"

text \<open>A terms index that answers every percolate request with two hits.\<close>

definition ex_percolate :: "char percolate_request \<Rightarrow> char percolate_source list option reply" where
  "ex_percolate request =
     Reply 200 (Some [\<lparr>ps_query_multi_match_query = ''seawater'', ps_uri = ''http://v/seawater'',
                        ps_source_terminology = ''V'', ps_namedGraphUri = ''http://g''\<rparr>,
                      \<lparr>ps_query_multi_match_query = ''sea ice'', ps_uri = ''http://v/ice'',
                        ps_source_terminology = ''W'', ps_namedGraphUri = ''http://h''\<rparr>])"

text \<open>A configured environment, a graph store and an index store for the search handler.\<close>

definition ex_env :: "string \<Rightarrow> string option" where
  "ex_env name = (if name = ''DOCUMENTS_INDEX_NAME'' then Some ''documents''
                  else if name = ''OPEN_SEARCH_ENDPOINT'' then Some ''https://os''
                  else None)"

definition no_params :: query_params where
  "no_params = \<lparr>p_keywords = None, p_term = None, p_termURI = None, p_from = None,
                p_size = None, p_sort = None, p_fields = None, p_synonyms = None,
                p_refereed = None, p_endorsed = None\<rparr>"

definition ex_bound :: "string \<Rightarrow> json" where
  "ex_bound v = JObject [(''type'', JString ''literal''), (''value'', JString v)]"

definition ex_document :: json where
  "ex_document =
     JObject [(''head'', JObject [(''vars'', JArray [JString ''annotatedTarget'',
                 JString ''annotatedPropertyLabel'', JString ''sameAsLabel''])]),
              (''results'', JObject [(''bindings'', JArray
                 [JObject [(''annotatedTarget'', ex_bound ''ocean''),
                           (''annotatedPropertyLabel'', ex_bound ''has_exact_synonym'')],
                  JObject [(''annotatedTarget'', ex_bound ''salty''),
                           (''annotatedPropertyLabel'', ex_bound ''comment'')],
                  JObject [(''sameAsLabel'', ex_bound ''marine water'')]])])]"

definition ex_graph :: "string \<Rightarrow> syn_reply" where
  "ex_graph k =
     (if k = ''sea'' then ResponseEnd (Some ex_document)
      else if k = ''ice'' then
        ResponseEnd (Some (JObject [(''results'', JObject [(''bindings'', JArray [])])]))
      else if k = ''err'' then
        ResponseEnd (Some (JObject [(''code'', JString ''MalformedQueryException'')]))
      else ResponseError)"

definition ex_search :: "search_document search_request \<Rightarrow> nat reply" where
  "ex_search q =
     Reply 200 (case q of
                  SearchDocument d \<Rightarrow> length (sd_query_bool_filter d)
                | SearchOfMixedKeywords options keywords \<Rightarrow> 0)"

text \<open>The options of the builder's test.\<close>

definition test_options :: SearchOptions where
  "test_options =
     \<lparr>so_keywords = [''ocean'', ''sea''], so_terms = [''alpha''], so_termURIs = [''uri://alpha''],
      so_from = JSNumber 0, so_size = JSNumber 20, so_sort = [''title:asc''],
      so_fields = [''title''], so_synonyms = JSBool False, so_refereed = JSBool True,
      so_endorsed = JSBool True\<rparr>"

section \<open>Properties of the term index synchronizer\<close>

lemma bulkBody_terms:
  "[(tq_label q, tq_uri q). TermQuery q \<leftarrow> bulkBody params ts] = map (\<lambda>t. (label t, uri t)) ts"
  by (induction ts) (simp_all add: bulkBody_def indexForTerm_def queryForTerm_def)

text \<open>
  Claim C1. Whatever the page fetched at the current offset (a page that is not empty)
  and whatever the stopword list, the documents of the bulk request are exactly the
  terms of the page whose label is longer than 2 and is not a stopword, in the order of
  the page; no bulk request is sent when no term is left; and the loop goes on at the
  offset advanced by the length of the page as fetched, not by the number of terms
  left. A bulk request that fails ends the run with its error.
\<close>

theorem indexTerms_page:
  assumes page: "fetchTerms sparql offset = Inr terms" and ne: "terms \<noteq> []"
  shows "\<exists>valid tr1.
      valid = [t \<leftarrow> terms. 2 < length (label t) \<and> label t \<notin> set (stopwords params)] \<and>
      tr1 = tr @ [FetchTermsRequest offset] \<and>
      [(tq_label q, tq_uri q). TermQuery q \<leftarrow> bulkBody params valid]
        = map (\<lambda>t. (label t, uri t)) valid \<and>
      (valid = [] \<longrightarrow>
         indexTerms_loop sparql es params offset tr =
         indexTerms_loop sparql es params (offset + length terms) tr1) \<and>
      (valid \<noteq> [] \<longrightarrow> bulkIndexTerms es tr1 params valid = Inr () \<longrightarrow>
         indexTerms_loop sparql es params offset tr =
         indexTerms_loop sparql es params (offset + length terms)
           (tr1 @ [BulkRequest (bulkBody params valid)])) \<and>
      (\<forall>e. valid \<noteq> [] \<longrightarrow> bulkIndexTerms es tr1 params valid = Inl e \<longrightarrow>
         indexTerms_loop sparql es params offset tr =
         Some (Inl e, offset, tr1 @ [BulkRequest (bulkBody params valid)]))"
proof -
  let ?valid = "[t \<leftarrow> terms. 2 < length (label t) \<and> label t \<notin> set (stopwords params)]"
  let ?tr1 = "tr @ [FetchTermsRequest offset]"
  have v: "validTerms (stopwords params) terms = ?valid"
    by (simp add: validTerms_def)
  have a: "?valid = [] \<longrightarrow>
         indexTerms_loop sparql es params offset tr =
         indexTerms_loop sparql es params (offset + length terms) ?tr1"
    using page ne by (subst indexTerms_loop.simps) (simp add: v)
  have b: "?valid \<noteq> [] \<longrightarrow> bulkIndexTerms es ?tr1 params ?valid = Inr () \<longrightarrow>
         indexTerms_loop sparql es params offset tr =
         indexTerms_loop sparql es params (offset + length terms)
           (?tr1 @ [BulkRequest (bulkBody params ?valid)])"
    using page ne by (subst indexTerms_loop.simps) (simp add: v Let_def)
  have c: "\<forall>e. ?valid \<noteq> [] \<longrightarrow> bulkIndexTerms es ?tr1 params ?valid = Inl e \<longrightarrow>
         indexTerms_loop sparql es params offset tr =
         Some (Inl e, offset, ?tr1 @ [BulkRequest (bulkBody params ?valid)])"
    using page ne by (subst indexTerms_loop.simps) (simp add: v Let_def)
  show ?thesis
    using a b c bulkBody_terms [of params ?valid] by blast
qed

text \<open>
  The page \<open>ok\<close>, \<open>a\<close>, \<open>seawater\<close>, \<open>the\<close> with the stopword \<open>the\<close>: the bulk
  request holds \<open>seawater\<close> alone (\<open>ok\<close> has length 2), and the next offset is 4.
\<close>

theorem indexTerms_page_witness:
  "fetchTerms ex_sparql 0 =
     Inr [\<lparr>label = ''ok'', uri = ''http://v/ok''\<rparr>, \<lparr>label = ''a'', uri = ''http://v/a''\<rparr>,
          \<lparr>label = ''seawater'', uri = ''http://v/seawater''\<rparr>,
          \<lparr>label = ''the'', uri = ''http://v/the''\<rparr>] \<and>
   indexTerms_loop ex_sparql ex_es ex_params 0 [] =
   indexTerms_loop ex_sparql ex_es ex_params 4
     [FetchTermsRequest 0,
      BulkRequest [IndexAction ''terms'',
        TermQuery \<lparr>tq_label = ''seawater'', tq_suggest = [''seawater''],
          tq_multi_match_query = ''seawater'', tq_multi_match_type = Phrase,
          tq_multi_match_fields = [Contents, Title], tq_source_terminology = ''V'',
          tq_namedGraphUri = ''http://g'', tq_uri = ''http://v/seawater''\<rparr>]]"
proof -
  let ?page = "[\<lparr>label = ''ok'', uri = ''http://v/ok''\<rparr>, \<lparr>label = ''a'', uri = ''http://v/a''\<rparr>,
          \<lparr>label = ''seawater'', uri = ''http://v/seawater''\<rparr>,
          \<lparr>label = ''the'', uri = ''http://v/the''\<rparr>]"
  have h: "fetchTerms ex_sparql 0 = Inr ?page"
    by (simp add: fetchTerms_def ex_sparql_def ex_page_def)
  have n: "?page \<noteq> []" by simp
  show ?thesis
    using h indexTerms_page [OF h n, where params = ex_params and es = ex_es and tr = "[]"]
    by (simp add: ex_params_def bulkBody_def indexForTerm_def queryForTerm_def
        bulkIndexTerms_def ex_es_def numeral_eq_Suc)
qed

lemma indexTerms_loop_returns:
  assumes fin: "\<forall>off\<ge>N. sparql off = Reply 200 (Some [])"
  shows "\<exists>res off' tr'. indexTerms_loop sparql es params offset tr = Some (res, off', tr') \<and>
           (res = Inr () \<longrightarrow>
              (\<exists>ext. tr' = tr @ ext @ [FetchTermsRequest off'] \<and> fetchTerms sparql off' = Inr [] \<and>
                 (\<forall>k. FetchTermsRequest k \<in> set ext \<longrightarrow> fetchTerms sparql k \<noteq> Inr [])))"
proof (induction "N - offset" arbitrary: offset tr rule: less_induct)
  case less
  show ?case
  proof (cases "fetchTerms sparql offset")
    case (Inl e)
    then show ?thesis
      by (subst indexTerms_loop.simps) simp
  next
    case (Inr terms)
    show ?thesis
    proof (cases "terms = []")
      case True
      with Inr show ?thesis
        by (subst indexTerms_loop.simps) simp
    next
      case False
      have "offset < N"
      proof (rule ccontr)
        assume "\<not> offset < N"
        then have "sparql offset = Reply 200 (Some [])" using fin by simp
        then have "fetchTerms sparql offset = Inr []" by (simp add: fetchTerms_def)
        with Inr False show False by simp
      qed
      then have dec: "N - (offset + length terms) < N - offset"
        using False by (cases terms) auto
      have ne: "fetchTerms sparql offset \<noteq> Inr []" using Inr False by simp
      let ?tr1 = "tr @ [FetchTermsRequest offset]"
      let ?valid = "validTerms (stopwords params) terms"
      let ?tr2 = "?tr1 @ [BulkRequest (bulkBody params ?valid)]"
      show ?thesis
      proof (cases "?valid = []")
        case True
        have eq: "indexTerms_loop sparql es params offset tr =
                  indexTerms_loop sparql es params (offset + length terms) ?tr1"
          using Inr False True by (subst indexTerms_loop.simps) simp
        from less [OF dec, of ?tr1] obtain res off' tr' where
          r: "indexTerms_loop sparql es params (offset + length terms) ?tr1 = Some (res, off', tr')"
          and q: "res = Inr () \<longrightarrow>
              (\<exists>ext. tr' = ?tr1 @ ext @ [FetchTermsRequest off'] \<and> fetchTerms sparql off' = Inr [] \<and>
                 (\<forall>k. FetchTermsRequest k \<in> set ext \<longrightarrow> fetchTerms sparql k \<noteq> Inr []))"
          by blast
        have "res = Inr () \<longrightarrow>
              (\<exists>ext. tr' = tr @ ext @ [FetchTermsRequest off'] \<and> fetchTerms sparql off' = Inr [] \<and>
                 (\<forall>k. FetchTermsRequest k \<in> set ext \<longrightarrow> fetchTerms sparql k \<noteq> Inr []))"
        proof
          assume "res = Inr ()"
          with q obtain ext where e: "tr' = ?tr1 @ ext @ [FetchTermsRequest off']"
            "fetchTerms sparql off' = Inr []"
            "\<forall>k. FetchTermsRequest k \<in> set ext \<longrightarrow> fetchTerms sparql k \<noteq> Inr []" by blast
          show "\<exists>ext. tr' = tr @ ext @ [FetchTermsRequest off'] \<and> fetchTerms sparql off' = Inr [] \<and>
                 (\<forall>k. FetchTermsRequest k \<in> set ext \<longrightarrow> fetchTerms sparql k \<noteq> Inr [])"
            by (rule exI [of _ "FetchTermsRequest offset # ext"]) (use e ne in auto)
        qed
        with r eq show ?thesis by simp
      next
        case nonempty: False
        show ?thesis
        proof (cases "bulkIndexTerms es ?tr1 params ?valid")
          case (Inl e)
          with Inr False nonempty show ?thesis
            by (subst indexTerms_loop.simps) (simp add: Let_def)
        next
          case ok: (Inr u)
          have eq: "indexTerms_loop sparql es params offset tr =
                  indexTerms_loop sparql es params (offset + length terms) ?tr2"
            using Inr False nonempty ok by (subst indexTerms_loop.simps) (simp add: Let_def)
          from less [OF dec, of ?tr2] obtain res off' tr' where
            r: "indexTerms_loop sparql es params (offset + length terms) ?tr2 = Some (res, off', tr')"
            and q: "res = Inr () \<longrightarrow>
              (\<exists>ext. tr' = ?tr2 @ ext @ [FetchTermsRequest off'] \<and> fetchTerms sparql off' = Inr [] \<and>
                 (\<forall>k. FetchTermsRequest k \<in> set ext \<longrightarrow> fetchTerms sparql k \<noteq> Inr []))"
            by blast
          have "res = Inr () \<longrightarrow>
              (\<exists>ext. tr' = tr @ ext @ [FetchTermsRequest off'] \<and> fetchTerms sparql off' = Inr [] \<and>
                 (\<forall>k. FetchTermsRequest k \<in> set ext \<longrightarrow> fetchTerms sparql k \<noteq> Inr []))"
          proof
            assume "res = Inr ()"
            with q obtain ext where e: "tr' = ?tr2 @ ext @ [FetchTermsRequest off']"
              "fetchTerms sparql off' = Inr []"
              "\<forall>k. FetchTermsRequest k \<in> set ext \<longrightarrow> fetchTerms sparql k \<noteq> Inr []" by blast
            show "\<exists>ext. tr' = tr @ ext @ [FetchTermsRequest off'] \<and> fetchTerms sparql off' = Inr [] \<and>
                 (\<forall>k. FetchTermsRequest k \<in> set ext \<longrightarrow> fetchTerms sparql k \<noteq> Inr [])"
              by (rule exI [of _ "FetchTermsRequest offset # BulkRequest (bulkBody params ?valid) # ext"])
                 (use e ne in auto)
          qed
          with r eq show ?thesis by simp
        qed
      qed
    qed
  qed
qed

text \<open>
  Claim C9. When the listing of the graph store is finite (from some offset \<open>N\<close> on,
  every fetch answers with zero bindings), \<open>indexTerms\<close> returns; and a run that
  returns without an error has stopped at the first page with zero bindings: its last
  request is the fetch at the final offset, that fetch gave no term, and every fetch
  before it gave some.
\<close>

theorem indexTerms_terminates:
  assumes "\<forall>off\<ge>N. sparql off = Reply 200 (Some [])"
  shows "\<exists>res off tr. indexTerms sparql es params = Some (res, off, tr) \<and>
           (res = Inr () \<longrightarrow>
              (\<exists>ext. tr = ext @ [FetchTermsRequest off] \<and> fetchTerms sparql off = Inr [] \<and>
                 (\<forall>k. FetchTermsRequest k \<in> set ext \<longrightarrow> fetchTerms sparql k \<noteq> Inr [])))"
  using indexTerms_loop_returns [OF assms, of es params 0 "[]"]
  by (simp add: indexTerms_def)

text \<open>
  The one-page listing of the example is empty from offset 1 on; the run fetches at
  offsets 0 and 4 and returns.
\<close>

theorem indexTerms_terminates_witness:
  "indexTerms ex_sparql ex_es ex_params =
     Some (Inr (), 4,
       [FetchTermsRequest 0,
        BulkRequest [IndexAction ''terms'',
          TermQuery \<lparr>tq_label = ''seawater'', tq_suggest = [''seawater''],
            tq_multi_match_query = ''seawater'', tq_multi_match_type = Phrase,
            tq_multi_match_fields = [Contents, Title], tq_source_terminology = ''V'',
            tq_namedGraphUri = ''http://g'', tq_uri = ''http://v/seawater''\<rparr>],
        FetchTermsRequest 4]) \<and>
   (\<exists>res off tr. indexTerms ex_sparql ex_es ex_params = Some (res, off, tr) \<and>
           (res = Inr () \<longrightarrow>
              (\<exists>ext. tr = ext @ [FetchTermsRequest off] \<and> fetchTerms ex_sparql off = Inr [] \<and>
                 (\<forall>k. FetchTermsRequest k \<in> set ext \<longrightarrow> fetchTerms ex_sparql k \<noteq> Inr []))))"
proof -
  have h: "\<forall>off\<ge>1. ex_sparql off = Reply 200 (Some [])"
    by (simp add: ex_sparql_def)
  have v: "indexTerms ex_sparql ex_es ex_params =
     Some (Inr (), 4,
       [FetchTermsRequest 0,
        BulkRequest [IndexAction ''terms'',
          TermQuery \<lparr>tq_label = ''seawater'', tq_suggest = [''seawater''],
            tq_multi_match_query = ''seawater'', tq_multi_match_type = Phrase,
            tq_multi_match_fields = [Contents, Title], tq_source_terminology = ''V'',
            tq_namedGraphUri = ''http://g'', tq_uri = ''http://v/seawater''\<rparr>],
        FetchTermsRequest 4])"
    by code_simp
  from indexTerms_terminates [OF h, of ex_es ex_params] v show ?thesis
    by blast
qed

section \<open>Properties of the search-index client\<close>

lemma closeCalls_append: "closeCalls (a @ b) = closeCalls a @ closeCalls b"
  by (induction a rule: closeCalls.induct) simp_all

lemma handlerCalls_append: "handlerCalls (a @ b) = handlerCalls a @ handlerCalls b"
  by (induction a rule: handlerCalls.induct) simp_all

lemma pagesReceived_append: "pagesReceived (a @ b) = pagesReceived a @ pagesReceived b"
  by (induction a rule: pagesReceived.induct) simp_all

lemma closeCalls_map_HandlerCall [simp]: "closeCalls (map HandlerCall cs) = []"
  by (induction cs) simp_all

lemma handlerCalls_map_HandlerCall [simp]: "handlerCalls (map HandlerCall cs) = cs"
  by (induction cs) simp_all

lemma pagesReceived_map_HandlerCall [simp]: "pagesReceived (map HandlerCall cs) = []"
  by (induction cs) simp_all

text \<open>\<open>pMap\<close> calls the handler on a prefix of the page, on all of it when it resolves.\<close>

lemma pMapStopOnError_trace:
  "pMapStopOnError hs f concurrency tr = (r, tr') \<Longrightarrow>
     \<exists>calls rest. tr' = tr @ map HandlerCall calls \<and> hs = calls @ rest \<and> (r = None \<longrightarrow> rest = [])"
proof (induction hs arbitrary: tr)
  case Nil
  then show ?case by simp
next
  case (Cons h hs)
  show ?case
  proof (cases "f tr h")
    case None
    with Cons.prems have "pMapStopOnError hs f concurrency (tr @ [HandlerCall h]) = (r, tr')"
      by simp
    from Cons.IH [OF this] obtain calls rest where
      "tr' = (tr @ [HandlerCall h]) @ map HandlerCall calls" "hs = calls @ rest"
      "r = None \<longrightarrow> rest = []" by blast
    then have "tr' = tr @ map HandlerCall (h # calls) \<and> h # hs = (h # calls) @ rest \<and>
               (r = None \<longrightarrow> rest = [])" by simp
    then show ?thesis by blast
  next
    case (Some x)
    let ?more = "case concurrency of None \<Rightarrow> hs | Some k \<Rightarrow> take (k - 1) hs"
    let ?rest = "case concurrency of None \<Rightarrow> [] | Some k \<Rightarrow> drop (k - 1) hs"
    from Cons.prems have "(Some x, tr @ HandlerCall h # map HandlerCall ?more) = (r, tr')"
      by (simp add: Some)
    moreover have "hs = ?more @ ?rest" by (cases concurrency) simp_all
    ultimately have "tr' = tr @ map HandlerCall (h # ?more) \<and> h # hs = (h # ?more) @ ?rest \<and>
               r \<noteq> None"
      by auto
    then show ?thesis by blast
  qed
qed

lemma pMapCollectErrors_trace:
  "pMapCollectErrors hs f tr = (errors, tr') \<Longrightarrow> tr' = tr @ map HandlerCall hs"
proof (induction hs arbitrary: tr errors tr')
  case Nil
  then show ?case by simp
next
  case (Cons h hs)
  obtain errors1 tr1 where c: "pMapCollectErrors hs f (tr @ [HandlerCall h]) = (errors1, tr1)"
    by (cases "pMapCollectErrors hs f (tr @ [HandlerCall h])")
  from Cons.IH [OF c] have "tr1 = (tr @ [HandlerCall h]) @ map HandlerCall hs" .
  moreover from Cons.prems c have "tr' = tr1" by simp
  ultimately show ?case by simp
qed

lemma pMap_trace:
  "pMap hs f options tr = (r, tr') \<Longrightarrow>
     \<exists>calls rest. tr' = tr @ map HandlerCall calls \<and> hs = calls @ rest \<and> (r = None \<longrightarrow> rest = [])"
proof -
  assume pm: "pMap hs f options tr = (r, tr')"
  show ?thesis
  proof (cases "pmo_concurrency options = Some 0")
    case True
    with pm have "tr' = tr @ map HandlerCall [] \<and> hs = [] @ hs \<and> r \<noteq> None"
      by (auto simp: pMap_def)
    then show ?thesis by blast
  next
    case positive: False
    show ?thesis
    proof (cases "case pmo_stopOnError options of None \<Rightarrow> True | Some b \<Rightarrow> b")
      case True
      obtain r1 tr1 where st: "pMapStopOnError hs f (pmo_concurrency options) tr = (r1, tr1)"
        by (cases "pMapStopOnError hs f (pmo_concurrency options) tr")
      from pm positive True st have "tr' = tr1" and "r = None \<longrightarrow> r1 = None"
        by (auto simp: pMap_def Let_def split: option.splits)
      with pMapStopOnError_trace [OF st] show ?thesis by blast
    next
      case False
      obtain errors tr1 where co: "pMapCollectErrors hs f tr = (errors, tr1)"
        by (cases "pMapCollectErrors hs f tr")
      from pm positive False co have "tr' = tr1"
        by (auto simp: pMap_def Let_def split: if_splits)
      with pMapCollectErrors_trace [OF co]
      have "tr' = tr @ map HandlerCall hs \<and> hs = hs @ [] \<and> (r = None \<longrightarrow> [] = [])" by simp
      then show ?thesis by blast
    qed
  qed
qed

text \<open>
  The invariant of the scroll loop: the hits handled so far, followed by the page in
  hand, are the pages received so far; the loop sends no \<open>closeScroll\<close>.
\<close>

lemma scrollMap_loop_inv:
  fixes f :: "('c, 'h, 'x) hit_handler"
  assumes "scrollMap_loop f pMapOptions es sid hs tr = Some y"
  shows "handlerCalls tr @ hs = concat (pagesReceived tr) \<longrightarrow>
           closeCalls (snd y) = closeCalls tr \<and>
           (fst y = Inr () \<longrightarrow> handlerCalls (snd y) = concat (pagesReceived (snd y))) \<and>
           (\<exists>rest. concat (pagesReceived (snd y)) = handlerCalls (snd y) @ rest)"
proof (rule scrollMap_loop.raw_induct [where P = "\<lambda>f pMapOptions es sid hs tr y.
           handlerCalls tr @ hs = concat (pagesReceived tr) \<longrightarrow>
           closeCalls (snd y) = closeCalls tr \<and>
           (fst y = Inr () \<longrightarrow> handlerCalls (snd y) = concat (pagesReceived (snd y))) \<and>
           (\<exists>rest. concat (pagesReceived (snd y)) = handlerCalls (snd y) @ rest)", OF _ assms],
       goal_cases)
  case (1 loop f pMapOptions es sid hs tr y)
  show ?case
  proof
    assume inv: "handlerCalls tr @ hs = concat (pagesReceived tr)"
    show "closeCalls (snd y) = closeCalls tr \<and>
           (fst y = Inr () \<longrightarrow> handlerCalls (snd y) = concat (pagesReceived (snd y))) \<and>
           (\<exists>rest. concat (pagesReceived (snd y)) = handlerCalls (snd y) @ rest)"
    proof (cases "hs = []")
      case True
      with 1(2) inv show ?thesis by auto
    next
      case False
      obtain r tr1 where pm: "pMap hs f pMapOptions tr = (r, tr1)"
        by (cases "pMap hs f pMapOptions tr")
      from pMap_trace [OF pm] obtain calls rest where
        tr1: "tr1 = tr @ map HandlerCall calls" and hs: "hs = calls @ rest"
        and all: "r = None \<longrightarrow> rest = []" by blast
      show ?thesis
      proof (cases r)
        case (Some e)
        with 1(2) False pm have y: "y = (Inl e, tr1)" by simp
        have "closeCalls tr1 = closeCalls tr"
          and "concat (pagesReceived tr1) = handlerCalls tr1 @ rest"
          using tr1 hs inv
          by (simp_all add: closeCalls_append handlerCalls_append pagesReceived_append)
        with y show ?thesis by auto
      next
        case None
        with all hs have calls: "calls = hs" by simp
        let ?tr2 = "tr1 @ [NextScrollRequest sid]"
        have c2: "closeCalls ?tr2 = closeCalls tr"
          and h2: "handlerCalls ?tr2 = concat (pagesReceived ?tr2)"
          using tr1 calls inv
          by (simp_all add: closeCalls_append handlerCalls_append pagesReceived_append)
        show ?thesis
        proof (cases "nextScroll es tr1 sid :: 'x os_error + ('c, 'h) scroll_response option")
          case (Inl e)
          with 1(2) False pm None have "y = (Inl e, ?tr2)" by (simp add: Let_def)
          with c2 h2 show ?thesis by simp
        next
          case (Inr raw)
          show ?thesis
          proof (cases raw)
            case none: None
            with 1(2) False pm None Inr have "y = (Inl ZodParseError, ?tr2)" by (simp add: Let_def)
            with c2 h2 show ?thesis by simp
          next
            case (Some resp)
            let ?tr3 = "?tr2 @ [ScrollPage (scroll_id resp) (hits resp)]"
            from 1(2) False pm None Inr Some
            have "loop f pMapOptions es sid (hits resp) ?tr3 = Some y" by (simp add: Let_def)
            from 1(1) [OF this] have
              "handlerCalls ?tr3 @ hits resp = concat (pagesReceived ?tr3) \<longrightarrow>
                 closeCalls (snd y) = closeCalls ?tr3 \<and>
                 (fst y = Inr () \<longrightarrow> handlerCalls (snd y) = concat (pagesReceived (snd y))) \<and>
                 (\<exists>rest. concat (pagesReceived (snd y)) = handlerCalls (snd y) @ rest)" .
            moreover have "handlerCalls ?tr3 @ hits resp = concat (pagesReceived ?tr3)"
              using h2 by (simp add: handlerCalls_append pagesReceived_append)
            moreover have "closeCalls ?tr3 = closeCalls tr"
              using c2 by (simp add: closeCalls_append)
            ultimately show ?thesis by simp
          qed
        qed
      qed
    qed
  qed
qed

text \<open>Every \<open>nextScroll\<close> request of the loop carries the constant \<open>scrollId\<close>.\<close>

lemma scrollMap_loop_next_ids:
  fixes f :: "('c, 'h, 'x) hit_handler"
  assumes "scrollMap_loop f pMapOptions es sid hs tr = Some y"
  shows "\<forall>s. NextScrollRequest s \<in> set (snd y) \<longrightarrow> NextScrollRequest s \<in> set tr \<or> s = sid"
proof (rule scrollMap_loop.raw_induct [where P = "\<lambda>f pMapOptions es sid hs tr y.
           \<forall>s. NextScrollRequest s \<in> set (snd y) \<longrightarrow> NextScrollRequest s \<in> set tr \<or> s = sid",
         OF _ assms],
       goal_cases)
  case (1 loop f pMapOptions es sid hs tr y)
  show ?case
  proof (cases "hs = []")
    case True
    with 1(2) show ?thesis by auto
  next
    case False
    obtain r tr1 where pm: "pMap hs f pMapOptions tr = (r, tr1)"
      by (cases "pMap hs f pMapOptions tr")
    from pMap_trace [OF pm] obtain calls where tr1: "tr1 = tr @ map HandlerCall calls"
      by blast
    have same: "NextScrollRequest s \<in> set tr1 \<longleftrightarrow> NextScrollRequest s \<in> set tr" for s
      by (auto simp: tr1)
    show ?thesis
    proof (cases r)
      case (Some e)
      with 1(2) False pm have "y = (Inl e, tr1)" by simp
      with same show ?thesis by simp
    next
      case None
      let ?tr2 = "tr1 @ [NextScrollRequest sid]"
      show ?thesis
      proof (cases "nextScroll es tr1 sid :: 'x os_error + ('c, 'h) scroll_response option")
        case (Inl e)
        with 1(2) False pm None have "y = (Inl e, ?tr2)" by (simp add: Let_def)
        with same show ?thesis by auto
      next
        case (Inr raw)
        show ?thesis
        proof (cases raw)
          case none: None
          with 1(2) False pm None Inr have "y = (Inl ZodParseError, ?tr2)" by (simp add: Let_def)
          with same show ?thesis by auto
        next
          case (Some resp)
          let ?tr3 = "?tr2 @ [ScrollPage (scroll_id resp) (hits resp)]"
          from 1(2) False pm None Inr Some
          have "loop f pMapOptions es sid (hits resp) ?tr3 = Some y" by (simp add: Let_def)
          from 1(1) [OF this] have
            "\<forall>s. NextScrollRequest s \<in> set (snd y) \<longrightarrow> NextScrollRequest s \<in> set ?tr3 \<or> s = sid" .
          with same show ?thesis by auto
        qed
      qed
    qed
  qed
qed

text \<open>
  A scan whose pages run out returns: when the store, once \<open>N\<close> pages have been
  received, answers \<open>nextScroll\<close> with no hit whenever it answers with a page, the loop
  ends, by a page without hits or by an error.
\<close>

lemma scrollMap_loop_returns:
  fixes f :: "('c, 'h, 'x) hit_handler"
  assumes fin: "\<forall>tr sid status r.
                  N \<le> length (pagesReceived tr) \<and> es tr sid = Reply status (Some r) \<longrightarrow> hits r = []"
  shows "\<exists>y. scrollMap_loop f pMapOptions es sid hs tr = Some y"
proof (induction "N - length (pagesReceived tr)" arbitrary: hs tr rule: less_induct)
  case less
  show ?case
  proof (cases "hs = []")
    case True
    then show ?thesis by (subst scrollMap_loop.simps) simp
  next
    case False
    obtain r tr1 where pm: "pMap hs f pMapOptions tr = (r, tr1)"
      by (cases "pMap hs f pMapOptions tr")
    from pMap_trace [OF pm] obtain calls where tr1: "tr1 = tr @ map HandlerCall calls"
      by blast
    have pages1: "pagesReceived tr1 = pagesReceived tr"
      by (simp add: tr1 pagesReceived_append)
    show ?thesis
    proof (cases r)
      case (Some e)
      with False pm show ?thesis by (subst scrollMap_loop.simps) simp
    next
      case None
      let ?tr2 = "tr1 @ [NextScrollRequest sid]"
      show ?thesis
      proof (cases "nextScroll es tr1 sid :: 'x os_error + ('c, 'h) scroll_response option")
        case (Inl e)
        with False pm None show ?thesis
          by (subst scrollMap_loop.simps) (simp add: Let_def)
      next
        case (Inr raw)
        show ?thesis
        proof (cases raw)
          case none: None
          with False pm None Inr show ?thesis
            by (subst scrollMap_loop.simps) (simp add: Let_def)
        next
          case (Some resp)
          let ?tr3 = "?tr2 @ [ScrollPage (scroll_id resp) (hits resp)]"
          have step: "scrollMap_loop f pMapOptions es sid hs tr =
                      scrollMap_loop f pMapOptions es sid (hits resp) ?tr3"
            using False pm None Inr Some
            by (subst scrollMap_loop.simps) (simp add: Let_def)
          show ?thesis
          proof (cases "hits resp = []")
            case True
            have "scrollMap_loop f pMapOptions es sid (hits resp) ?tr3 = Some (Inr (), ?tr3)"
              using True by (subst scrollMap_loop.simps) simp
            with step show ?thesis by simp
          next
            case more: False
            from Inr Some obtain status where reply: "es tr1 sid = Reply status (Some resp)"
              by (cases "es tr1 sid") (auto simp: nextScroll_def gotEs_def split: if_splits)
            have "\<not> N \<le> length (pagesReceived tr1)"
              using fin reply more by blast
            then have "N - length (pagesReceived ?tr3) < N - length (pagesReceived tr)"
              by (simp add: pagesReceived_append pages1)
            from less [OF this] step show ?thesis by simp
          qed
        qed
      qed
    qed
  qed
qed

text \<open>
  Claim C2. For a scroll that \<open>scrollMap\<close> has opened (\<open>openScroll\<close> returned a
  response that passes the schema), every run that ends, with or without an error, has
  called \<open>closeScroll\<close> exactly once, for the scroll id of the opening response and as
  its last call. The handler is called on the hits of the pages received in their
  order, each at most once; in a run that ends without an error the calls of the
  handler are exactly the hits of all the pages received. And the run does end when
  the pages of the scroll run out, also when the handler throws on the way.
\<close>

theorem scrollMap_closes_once:
  fixes f :: "('c, 'h, 'x) hit_handler"
  assumes opened: "(snd (openScroll es_open index scrollOptions)
                    :: 'x os_error + ('c, 'h) scroll_response option)
                 = Inr (Some openScrollResponse)"
  shows "(\<forall>res tr.
            scrollMap es_open es_next es_close index f pMapOptions scrollOptions = Some (res, tr) \<longrightarrow>
              closeCalls tr = [scroll_id openScrollResponse] \<and>
              last tr = CloseScrollRequest (scroll_id openScrollResponse) \<and>
              (res = Inr () \<longrightarrow> handlerCalls tr = concat (pagesReceived tr)) \<and>
              (\<exists>rest. concat (pagesReceived tr) = handlerCalls tr @ rest)) \<and>
         ((\<forall>tr sid status r.
             N \<le> length (pagesReceived tr) \<and> es_next tr sid = Reply status (Some r) \<longrightarrow> hits r = []) \<longrightarrow>
          (\<exists>res tr.
             scrollMap es_open es_next es_close index f pMapOptions scrollOptions = Some (res, tr)))"
proof -
  let ?sid = "scroll_id openScrollResponse"
  let ?hs = "hits openScrollResponse"
  obtain request where g:
    "(openScroll es_open index scrollOptions
        :: 'c open_scroll_request \<times> ('x os_error + ('c, 'h) scroll_response option))
       = (request, Inr (Some openScrollResponse))"
    using opened
    by (cases "openScroll es_open index scrollOptions
                 :: 'c open_scroll_request \<times> ('x os_error + ('c, 'h) scroll_response option)")
       simp
  let ?tr0 = "[OpenScrollRequest request, ScrollPage ?sid ?hs]"
  have partial: "closeCalls tr = [?sid] \<and> last tr = CloseScrollRequest ?sid \<and>
              (res = Inr () \<longrightarrow> handlerCalls tr = concat (pagesReceived tr)) \<and>
              (\<exists>rest. concat (pagesReceived tr) = handlerCalls tr @ rest)"
    if run: "scrollMap es_open es_next es_close index f pMapOptions scrollOptions = Some (res, tr)"
    for res tr
  proof -
    obtain y where loop: "scrollMap_loop f pMapOptions es_next ?sid ?hs ?tr0 = Some y"
      using run g
      by (cases "scrollMap_loop f pMapOptions es_next ?sid ?hs ?tr0")
         (simp_all add: scrollMap_def Let_def)
    have tr: "tr = snd y @ [CloseScrollRequest ?sid]"
      using run g loop
      by (cases y) (auto simp: scrollMap_def Let_def split: sum.splits)
    have res: "res = Inr () \<longrightarrow> fst y = Inr ()"
      using run g loop
      by (cases y) (auto simp: scrollMap_def Let_def split: sum.splits)
    from scrollMap_loop_inv [OF loop]
    have inv: "closeCalls (snd y) = []"
      "fst y = Inr () \<longrightarrow> handlerCalls (snd y) = concat (pagesReceived (snd y))"
      "\<exists>rest. concat (pagesReceived (snd y)) = handlerCalls (snd y) @ rest"
      by simp_all
    show ?thesis
      using inv res
      by (simp add: tr closeCalls_append handlerCalls_append pagesReceived_append)
  qed
  have total: "\<exists>res tr.
      scrollMap es_open es_next es_close index f pMapOptions scrollOptions = Some (res, tr)"
    if fin: "\<forall>tr sid status r.
               N \<le> length (pagesReceived tr) \<and> es_next tr sid = Reply status (Some r) \<longrightarrow> hits r = []"
  proof -
    from scrollMap_loop_returns [OF fin, of f pMapOptions ?sid ?hs ?tr0]
    obtain y where loop: "scrollMap_loop f pMapOptions es_next ?sid ?hs ?tr0 = Some y" ..
    show ?thesis
      using g loop
      by (cases y) (auto simp: scrollMap_def Let_def split: sum.splits)
  qed
  show ?thesis using partial total by blast
qed

text \<open>
  A scan whose handler throws on the first hit of the second page: with the default
  options the handler is also called on the other hit of that page, with a
  \<open>concurrency\<close> of 1 it is not; \<open>closeScroll\<close> is called once in both.
\<close>

theorem scrollMap_closes_once_witness:
  "scrollMap ex_open ex_next ex_close ''documents'' ex_f_throws no_pMapOptions no_options =
     Some (Inl (HandlerRejected ''boom''),
           [OpenScrollRequest ex_request, ScrollPage ''A'' [1, 2], HandlerCall 1, HandlerCall 2,
            NextScrollRequest ''A'', ScrollPage ''B'' [3, 4], HandlerCall 3, HandlerCall 4,
            CloseScrollRequest ''A'']) \<and>
   closeCalls [OpenScrollRequest ex_request, ScrollPage ''A'' [1, 2], HandlerCall 1,
            HandlerCall (2::nat), NextScrollRequest ''A'', ScrollPage ''B'' [3, 4],
            HandlerCall 3, HandlerCall 4, CloseScrollRequest ''A''] = [''A''] \<and>
   scrollMap ex_open ex_next ex_close ''documents'' ex_f_throws
       \<lparr>pmo_concurrency = Some 1, pmo_stopOnError = None\<rparr> no_options =
     Some (Inl (HandlerRejected ''boom''),
           [OpenScrollRequest ex_request, ScrollPage ''A'' [1, 2], HandlerCall 1, HandlerCall 2,
            NextScrollRequest ''A'', ScrollPage ''B'' [3, 4], HandlerCall 3,
            CloseScrollRequest ''A''])"
proof -
  let ?tr = "[OpenScrollRequest ex_request, ScrollPage ''A'' [1, 2], HandlerCall 1,
            HandlerCall (2::nat), NextScrollRequest ''A'', ScrollPage ''B'' [3, 4],
            HandlerCall 3, HandlerCall 4, CloseScrollRequest ''A'']"
  have h: "scrollMap ex_open ex_next ex_close ''documents'' ex_f_throws no_pMapOptions no_options =
             Some (Inl (HandlerRejected ''boom''), ?tr)"
    by code_simp
  have h1: "scrollMap ex_open ex_next ex_close ''documents'' ex_f_throws
       \<lparr>pmo_concurrency = Some 1, pmo_stopOnError = None\<rparr> no_options =
     Some (Inl (HandlerRejected ''boom''),
           [OpenScrollRequest ex_request, ScrollPage ''A'' [1, 2], HandlerCall 1, HandlerCall 2,
            NextScrollRequest ''A'', ScrollPage ''B'' [3, 4], HandlerCall 3,
            CloseScrollRequest ''A''])"
    by code_simp
  have o: "(snd (openScroll ex_open ''documents'' no_options)
              :: string os_error + (char, nat) scroll_response option)
           = Inr (Some \<lparr>scroll_id = ''A'', hits = [1, 2]\<rparr>)"
    by (simp add: openScroll_def ex_open_def gotEs_def)
  have fin: "\<forall>tr sid status r.
      2 \<le> length (pagesReceived tr) \<and> ex_next tr sid = Reply status (Some r) \<longrightarrow> hits r = []"
    by (auto simp: ex_next_def)
  note t = scrollMap_closes_once [OF o, where es_next = ex_next and es_close = ex_close
      and f = ex_f_throws and pMapOptions = no_pMapOptions and N = 2]
  from t [THEN conjunct2, THEN mp, OF fin]
  obtain res tr where
    "scrollMap ex_open ex_next ex_close ''documents'' ex_f_throws no_pMapOptions no_options
       = Some (res, tr)"
    by blast
  with h have "tr = ?tr" by simp
  from t [THEN conjunct1] h have "closeCalls ?tr = [''A'']"
    by simp
  with h h1 show ?thesis by simp
qed

text \<open>
  Whatever the scan, the requests of \<open>nextScroll\<close> all carry the scroll id of the
  opening response.
\<close>

lemma scrollMap_next_ids:
  fixes f :: "('c, 'h, 'x) hit_handler"
  assumes run: "scrollMap es_open es_next es_close index f pMapOptions scrollOptions
                  = Some (res, tr)"
    and opened: "(snd (openScroll es_open index scrollOptions)
                    :: 'x os_error + ('c, 'h) scroll_response option)
                 = Inr (Some openScrollResponse)"
    and req: "NextScrollRequest s \<in> set tr"
  shows "s = scroll_id openScrollResponse"
proof -
  let ?sid = "scroll_id openScrollResponse"
  let ?hs = "hits openScrollResponse"
  obtain request where g:
    "(openScroll es_open index scrollOptions
        :: 'c open_scroll_request \<times> ('x os_error + ('c, 'h) scroll_response option))
       = (request, Inr (Some openScrollResponse))"
    using opened
    by (cases "openScroll es_open index scrollOptions
                 :: 'c open_scroll_request \<times> ('x os_error + ('c, 'h) scroll_response option)")
       simp
  let ?tr0 = "[OpenScrollRequest request, ScrollPage ?sid ?hs]"
  obtain y where loop: "scrollMap_loop f pMapOptions es_next ?sid ?hs ?tr0 = Some y"
    using run g
    by (cases "scrollMap_loop f pMapOptions es_next ?sid ?hs ?tr0")
       (simp_all add: scrollMap_def Let_def)
  have tr: "tr = snd y @ [CloseScrollRequest ?sid]"
    using run g loop
    by (cases y) (auto simp: scrollMap_def Let_def split: sum.splits)
  from req tr have "NextScrollRequest s \<in> set (snd y)" by simp
  with scrollMap_loop_next_ids [OF loop] show ?thesis by auto
qed

text \<open>
  Claim C3. The claim asks that each \<open>nextScroll\<close> request carry the scroll id of the
  response before it. In the scan below the first \<open>nextScroll\<close> response carries the
  new id \<open>B\<close>, and the second \<open>nextScroll\<close> request is sent with \<open>A\<close>, the id of
  the opening response, again: the loop sends the constant \<open>scrollId\<close> bound before
  it, against the comment of \<open>nextScroll\<close>, which asks for the id of the last response.
\<close>

theorem scrollMap_resends_first_cursor:
  "scrollMap ex_open ex_next ex_close ''documents'' ex_f_ok no_pMapOptions no_options =
     Some (Inr (),
           [OpenScrollRequest ex_request, ScrollPage ''A'' [1, 2], HandlerCall 1, HandlerCall 2,
            NextScrollRequest ''A'', ScrollPage ''B'' [3, 4], HandlerCall 3, HandlerCall 4,
            NextScrollRequest ''A'', ScrollPage ''C'' [],
            CloseScrollRequest ''A'']) \<and>
   \<not> cursorsFollowed ''A''
           [OpenScrollRequest ex_request, ScrollPage ''A'' [1, 2], HandlerCall 1,
            HandlerCall (2::nat), NextScrollRequest ''A'', ScrollPage ''B'' [3, 4],
            HandlerCall 3, HandlerCall 4, NextScrollRequest ''A'', ScrollPage ''C'' [],
            CloseScrollRequest ''A'']"
proof -
  have "scrollMap ex_open ex_next ex_close ''documents'' ex_f_ok no_pMapOptions no_options =
     Some (Inr (),
           [OpenScrollRequest ex_request, ScrollPage ''A'' [1, 2], HandlerCall 1, HandlerCall 2,
            NextScrollRequest ''A'', ScrollPage ''B'' [3, 4], HandlerCall 3, HandlerCall 4,
            NextScrollRequest ''A'', ScrollPage ''C'' [],
            CloseScrollRequest ''A''])"
    by code_simp
  then show ?thesis by simp
qed

text \<open>
  Claim C5. Without window options the percolate request is sent with \<open>from = 0\<close> and
  \<open>size = 300\<close>. Whatever the options, a 2xx response that passes the schema with the
  hits \<open>hs\<close> gives as many terms as there are hits, none for no hit, and the label (the
  \<open>multi_match\<close> query of the stored query document), the URI, the source terminology
  and the named graph of each term are those of the hit at the same position.
\<close>

theorem percolateDocumentFields_maps_hits:
  fixes es :: "'c percolate_request \<Rightarrow> 'c percolate_source list option reply"
  shows "pr_from (fst (percolateDocumentFields es idx flds \<lparr>opt_from = None, opt_size = None\<rparr>
               :: 'c percolate_request \<times> ('x os_error + 'c DocumentItemTerm list))) = 0 \<and>
         pr_size (fst (percolateDocumentFields es idx flds \<lparr>opt_from = None, opt_size = None\<rparr>
               :: 'c percolate_request \<times> ('x os_error + 'c DocumentItemTerm list))) = 300 \<and>
         (\<forall>status hs.
            es (fst (percolateDocumentFields es idx flds options
                 :: 'c percolate_request \<times> ('x os_error + 'c DocumentItemTerm list)))
              = Reply status (Some hs) \<and> 200 \<le> status \<and> status \<le> 299 \<longrightarrow>
            (\<exists>ts. snd (percolateDocumentFields es idx flds options
                         :: 'c percolate_request \<times> ('x os_error + 'c DocumentItemTerm list))
                     = Inr ts \<and>
                  length ts = length hs \<and>
                  (hs = [] \<longrightarrow> ts = []) \<and>
                  (\<forall>i<length hs.
                     dit_label (ts ! i) = ps_query_multi_match_query (hs ! i) \<and>
                     dit_uri (ts ! i) = ps_uri (hs ! i) \<and>
                     dit_source_terminology (ts ! i) = ps_source_terminology (hs ! i) \<and>
                     dit_namedGraphUri (ts ! i) = ps_namedGraphUri (hs ! i))))"
  by (auto simp: percolateDocumentFields_def gotEs_def Let_def)

theorem percolateDocumentFields_maps_hits_witness:
  "fst (percolateDocumentFields ex_percolate ''terms''
          \<lparr>pf_title = ''Sea ice'', pf_contents = ''seawater''\<rparr>
          \<lparr>opt_from = None, opt_size = None\<rparr>
        :: char percolate_request \<times> (unit os_error + char DocumentItemTerm list))
     = \<lparr>pr_index = ''terms'', pr_percolate_field = ''query'',
        pr_percolate_document = \<lparr>pf_title = ''Sea ice'', pf_contents = ''seawater''\<rparr>,
        pr_from = 0, pr_size = 300\<rparr> \<and>
   snd (percolateDocumentFields ex_percolate ''terms''
          \<lparr>pf_title = ''Sea ice'', pf_contents = ''seawater''\<rparr>
          \<lparr>opt_from = None, opt_size = None\<rparr>
        :: char percolate_request \<times> (unit os_error + char DocumentItemTerm list))
     = Inr [\<lparr>dit_label = ''seawater'', dit_uri = ''http://v/seawater'',
             dit_source_terminology = ''V'', dit_namedGraphUri = ''http://g''\<rparr>,
            \<lparr>dit_label = ''sea ice'', dit_uri = ''http://v/ice'',
             dit_source_terminology = ''W'', dit_namedGraphUri = ''http://h''\<rparr>]"
  using percolateDocumentFields_maps_hits [where es = ex_percolate and idx = "''terms''"
      and flds = "\<lparr>pf_title = ''Sea ice'', pf_contents = ''seawater''\<rparr>"
      and options = "\<lparr>opt_from = None, opt_size = None\<rparr>" and ?'x = unit]
  by (simp add: percolateDocumentFields_def ex_percolate_def gotEs_def)

text \<open>
  The fetch of a page of terms, the bulk load of terms and the creation of an index
  fail on a response with a status outside 2xx (the fetch also on a body that its
  schema rejects), and the error of the fetch and of the bulk load ends \<open>indexTerms\<close>;
  the creation of an index succeeds all the same when the error type of the response
  is \<open>resource_already_exists_exception\<close>.
\<close>

lemma fetch_bulk_create_failures:
  fixes sparql :: "'c sparql_store" and es :: "'c bulk_store"
  shows
  "(sparql offset = Reply status b \<and> (\<not> (200 \<le> status \<and> status \<le> 299) \<or> b = None) \<longrightarrow>
      (\<exists>e. fetchTerms sparql offset = Inl e \<and>
           indexTerms_loop sparql es params offset tr
             = Some (Inl e, offset, tr @ [FetchTermsRequest offset]))) \<and>
   (es tr1 (bulkBody params terms) = Reply status1 u \<and> \<not> (200 \<le> status1 \<and> status1 \<le> 299) \<longrightarrow>
      bulkIndexTerms es tr1 params terms = Inl (ESRequestFailed status1)) \<and>
   (fetchTerms sparql offset = Inr page \<and> validTerms (stopwords params) page \<noteq> [] \<and>
    bulkIndexTerms es (tr @ [FetchTermsRequest offset]) params
      (validTerms (stopwords params) page) = Inl e1 \<longrightarrow>
      indexTerms_loop sparql es params offset tr
        = Some (Inl e1, offset,
                tr @ [FetchTermsRequest offset,
                      BulkRequest (bulkBody params (validTerms (stopwords params) page))])) \<and>
   (\<not> (200 \<le> status2 \<and> status2 \<le> 299) \<and>
    error_type \<noteq> Some ''resource_already_exists_exception'' \<longrightarrow>
      (\<exists>e. (createIndex (Reply status2 error_type) :: unit os_error + unit) = Inl e)) \<and>
   (createIndex (Reply status2 (Some ''resource_already_exists_exception''))
      :: unit os_error + unit) = Inr ()"
proof -
  have fetch: "\<exists>e. fetchTerms sparql offset = Inl e \<and>
           indexTerms_loop sparql es params offset tr
             = Some (Inl e, offset, tr @ [FetchTermsRequest offset])"
    if "sparql offset = Reply status b" "\<not> (200 \<le> status \<and> status \<le> 299) \<or> b = None"
  proof -
    from that have "\<exists>e. fetchTerms sparql offset = Inl e"
      by (cases "status = 200") (auto simp: fetchTerms_def)
    then obtain e where e: "fetchTerms sparql offset = Inl e" ..
    then have "indexTerms_loop sparql es params offset tr
             = Some (Inl e, offset, tr @ [FetchTermsRequest offset])"
      by (subst indexTerms_loop.simps) simp
    with e show ?thesis by blast
  qed
  have bulk: "bulkIndexTerms es tr1 params terms = Inl (ESRequestFailed status1)"
    if "es tr1 (bulkBody params terms) = Reply status1 u" "\<not> (200 \<le> status1 \<and> status1 \<le> 299)"
    using that by (auto simp: bulkIndexTerms_def)
  have loop: "indexTerms_loop sparql es params offset tr
        = Some (Inl e1, offset,
                tr @ [FetchTermsRequest offset,
                      BulkRequest (bulkBody params (validTerms (stopwords params) page))])"
    if "fetchTerms sparql offset = Inr page" "validTerms (stopwords params) page \<noteq> []"
       "bulkIndexTerms es (tr @ [FetchTermsRequest offset]) params
          (validTerms (stopwords params) page) = Inl e1"
  proof -
    from that(2) have "page \<noteq> []" by (auto simp: validTerms_def)
    with that show ?thesis
      by (subst indexTerms_loop.simps) (simp add: Let_def)
  qed
  have create: "\<exists>e. (createIndex (Reply status2 error_type) :: unit os_error + unit) = Inl e"
    if "\<not> (200 \<le> status2 \<and> status2 \<le> 299)"
       "error_type \<noteq> Some ''resource_already_exists_exception''"
    using that by (cases error_type) (auto simp: createIndex_def)
  have exists: "(createIndex (Reply status2 (Some ''resource_already_exists_exception''))
      :: unit os_error + unit) = Inr ()"
    by (simp add: createIndex_def)
  show ?thesis
    using fetch bulk loop create exists by blast
qed

text \<open>
  Claim C7. The claim asks that a response of the index store with a status outside 2xx
  make the put of a document fail with the error of the store. When the store answers
  the post of \<open>putDocumentItem\<close> with status 500, the \<open>catch\<close> after the post logs
  the HTTP error and does not throw it again: the error of the store never reaches the
  caller. What the call returns is what the schema of the put response makes of
  \<open>undefined\<close>, a parse error when it rejects it and a result when it accepts it,
  whatever the store has sent. \<open>percolateDocumentFields\<close>, which posts and catches in
  the same way, throws the error again and fails with it.
\<close>

theorem putDocumentItem_swallows_http_error:
  "(putDocumentItem parseUndefined (Reply 500 raw) :: unit os_error + 'p)
     = (case parseUndefined of None \<Rightarrow> Inl ZodParseError | Some p \<Rightarrow> Inr p) \<and>
   (putDocumentItem parseUndefined (Reply 500 raw) :: unit os_error + 'p) \<noteq> Inl (HTTPError 500) \<and>
   (snd (percolateDocumentFields (\<lambda>request. Reply 500 hs) idx flds options)
      :: unit os_error + 'c DocumentItemTerm list) = Inl (HTTPError 500)"
  by (simp add: putDocumentItem_def percolateDocumentFields_def gotEs_def Let_def
      split: option.splits)

section \<open>Properties of the search handler and of the search document\<close>

text \<open>
  Claim C6. With the two environment variables of the handler set, a request without
  query parameters, or whose parameters (none at all, or any others) lack \<open>keywords\<close>,
  is answered by one callback without error, with status 200 and the empty JSON object
  as body; no synonyms query and no search request is sent.
\<close>

theorem handler_missing_keywords:
  assumes "env ''DOCUMENTS_INDEX_NAME'' = Some documentsIndexName"
    and "env ''OPEN_SEARCH_ENDPOINT'' = Some openSearchEndpoint"
    and "queryStringParameters = None \<or>
         (\<exists>params. queryStringParameters = Some params \<and> p_keywords params = None)"
  shows "handler env defaultSearchFields buildSearchDocument graph es queryStringParameters =
           \<lparr>synonymQueries = [], searchRequests = [],
            outcome = Callback None \<lparr>statusCode = 200, body = EmptyObject,
                                     headers = responseHeaders\<rparr>\<rparr>"
  using assms by (auto simp: handler_def getStringFromEnv_def)

theorem handler_missing_keywords_witness:
  "ex_env ''DOCUMENTS_INDEX_NAME'' = Some ''documents'' \<and>
   ex_env ''OPEN_SEARCH_ENDPOINT'' = Some ''https://os'' \<and>
   p_keywords (no_params\<lparr>p_term := Some ''alpha''\<rparr>) = None \<and>
   handler ex_env [''title''] buildDocumentSearchQuery ex_graph ex_search
     (Some (no_params\<lparr>p_term := Some ''alpha''\<rparr>)) =
     \<lparr>synonymQueries = [], searchRequests = [],
      outcome = Callback None \<lparr>statusCode = 200, body = EmptyObject,
                               headers = responseHeaders\<rparr>\<rparr>"
proof -
  have a: "ex_env ''DOCUMENTS_INDEX_NAME'' = Some ''documents''"
    and b: "ex_env ''OPEN_SEARCH_ENDPOINT'' = Some ''https://os''"
    by (simp_all add: ex_env_def)
  have k: "p_keywords (no_params\<lparr>p_term := Some ''alpha''\<rparr>) = None"
    by (simp add: no_params_def)
  then have c: "Some (no_params\<lparr>p_term := Some ''alpha''\<rparr>) = None \<or>
     (\<exists>params. Some (no_params\<lparr>p_term := Some ''alpha''\<rparr>) = Some params \<and> p_keywords params = None)"
    by simp
  show ?thesis
    using a b k handler_missing_keywords [OF a b c] by simp
qed

lemma getProp_member_spec:
  "getProp (Some v) name = (if v = JNull then Inl TypeError else Inr (member_spec v name))"
  by (cases v) simp_all

lemma valueOf_spec_SomeD:
  "valueOf_spec binding variable = Some s \<Longrightarrow>
     \<exists>bound. member_spec binding variable = Some bound \<and> bound \<noteq> JNull \<and> binding \<noteq> JNull \<and>
             member_spec bound ''value'' = Some (JString s)"
  by (cases binding) (auto simp: valueOf_spec_def split: option.splits json.splits)

lemma member_spec_SomeD: "member_spec v name = Some x \<Longrightarrow> v \<noteq> JNull"
  by (cases v) simp_all

text \<open>On a binding as the query produces it the loop pushes the synonyms of the binding.\<close>

lemma parseSynonymsResponse_loop_step:
  assumes "fromSynonymsQuery r"
  shows "parseSynonymsResponse_loop (r # rs) acc =
         parseSynonymsResponse_loop rs
           (acc @ map (\<lambda>s. Some (JString s)) (synonymsOfBinding_spec r))"
proof (cases "member_spec r ''sameAsLabel''")
  case (Some bound)
  with assms obtain s where v: "valueOf_spec r ''sameAsLabel'' = Some s"
    and l: "member_spec r ''annotatedPropertyLabel'' = None"
    and t: "member_spec r ''annotatedTarget'' = None"
    by (auto simp: fromSynonymsQuery_def)
  from valueOf_spec_SomeD [OF v] Some have b: "bound \<noteq> JNull" "r \<noteq> JNull"
    "member_spec bound ''value'' = Some (JString s)" by auto
  have "synonymsOfBinding_spec r = [s]"
    using v l t by (simp add: synonymsOfBinding_spec_def valueOf_spec_def)
  then show ?thesis
    using Some b l by (simp add: getProp_member_spec)
next
  case None
  with assms obtain t where t: "valueOf_spec r ''annotatedTarget'' = Some t"
    and l: "member_spec r ''annotatedPropertyLabel'' = None
            \<or> valueOf_spec r ''annotatedPropertyLabel'' \<noteq> None"
    by (auto simp: fromSynonymsQuery_def)
  from valueOf_spec_SomeD [OF t] obtain tb where tb: "member_spec r ''annotatedTarget'' = Some tb"
    "tb \<noteq> JNull" "r \<noteq> JNull" "member_spec tb ''value'' = Some (JString t)" by blast
  have same: "valueOf_spec r ''sameAsLabel'' = None"
    using None by (simp add: valueOf_spec_def)
  show ?thesis
  proof (cases "member_spec r ''annotatedPropertyLabel''")
    case absent: None
    then have "valueOf_spec r ''annotatedPropertyLabel'' = None"
      by (simp add: valueOf_spec_def)
    then have "synonymsOfBinding_spec r = []"
      using same t by (simp add: synonymsOfBinding_spec_def)
    then show ?thesis
      using absent None tb by (simp add: getProp_member_spec)
  next
    case (Some lb)
    with l obtain name where name: "valueOf_spec r ''annotatedPropertyLabel'' = Some name"
      by auto
    from valueOf_spec_SomeD [OF name] Some have lb: "lb \<noteq> JNull"
      "member_spec lb ''value'' = Some (JString name)" by auto
    show ?thesis
    proof (cases "name = ''has_exact_synonym'' \<or> name = ''alternative_label''")
      case True
      then have "synonymsOfBinding_spec r = [t]"
        using t name same by (auto simp: synonymsOfBinding_spec_def)
      then show ?thesis
        using True Some lb tb by (auto simp: getProp_member_spec)
    next
      case False
      then have "synonymsOfBinding_spec r = []"
        using t name same by (auto simp: synonymsOfBinding_spec_def)
      then show ?thesis
        using False Some lb tb by (auto simp: getProp_member_spec)
    qed
  qed
qed

lemma parseSynonymsResponse_loop_spec:
  "list_all fromSynonymsQuery rs \<Longrightarrow>
     parseSynonymsResponse_loop rs acc =
     Inr (acc @ map (\<lambda>s. Some (JString s)) (concat (map synonymsOfBinding_spec rs)))"
proof (induction rs arbitrary: acc)
  case Nil
  then show ?case by simp
next
  case (Cons r rs)
  then have "fromSynonymsQuery r" and "list_all fromSynonymsQuery rs" by simp_all
  then show ?case
    by (simp only: parseSynonymsResponse_loop_step Cons.IH) simp
qed

text \<open>An answered query resolves with the synonyms of its keyword.\<close>

lemma queryPromise_answered:
  assumes "queryAnswered_spec graph k"
  shows "queryPromise graph k
           = Resolved (map (\<lambda>s. Some (JString s)) (synonymsOfKeyword_spec graph k))"
proof -
  from assms obtain document bindings where
    g: "graph k = ResponseEnd (Some document)"
    and b: "bindingsOf_spec document = Some bindings"
    and w: "list_all fromSynonymsQuery bindings"
    by (auto simp: queryAnswered_spec_def split: syn_reply.splits option.splits)
  from b obtain results where r: "member_spec document ''results'' = Some results"
    and rb: "member_spec results ''bindings'' = Some (JArray bindings)"
    by (auto simp: bindingsOf_spec_def split: option.splits json.splits)
  from r rb have "document \<noteq> JNull" "results \<noteq> JNull" by (auto dest: member_spec_SomeD)
  then have "parseSynonymsResponse document =
             Inr (map (\<lambda>s. Some (JString s)) (concat (map synonymsOfBinding_spec bindings)))"
    using r rb w
    by (simp add: parseSynonymsResponse_def getProp_member_spec parseSynonymsResponse_loop_spec)
  then show ?thesis
    using g b by (simp add: queryPromise_def synonymsOfKeyword_spec_def)
qed

text \<open>A failed query does not resolve.\<close>

lemma queryPromise_failed:
  assumes "queryFails_spec graph k"
  shows "queryPromise graph k \<noteq> Resolved synonyms"
proof (cases "graph k")
  case RequestFailed
  then show ?thesis by (simp add: queryPromise_def)
next
  case ResponseError
  then show ?thesis by (simp add: queryPromise_def)
next
  case (ResponseEnd b)
  show ?thesis
  proof (cases b)
    case None
    with ResponseEnd show ?thesis by (simp add: queryPromise_def)
  next
    case (Some document)
    have "\<exists>e. parseSynonymsResponse document = Inl e"
    proof (cases "member_spec document ''results''")
      case None
      then show ?thesis
        by (simp add: parseSynonymsResponse_def getProp_member_spec)
    next
      case present: (Some results)
      with assms ResponseEnd Some
      have nolist: "(case member_spec results ''bindings'' of
                       Some (JArray bindings) \<Rightarrow> False
                     | Some (JString s) \<Rightarrow> False
                     | _ \<Rightarrow> True)"
        by (simp add: queryFails_spec_def)
      then have "\<exists>e. forOf (member_spec results ''bindings'') = Inl e"
        by (cases "member_spec results ''bindings''")
           (auto split: json.splits)
      then show ?thesis
        using present
        by (auto simp: parseSynonymsResponse_def getProp_member_spec)
    qed
    with ResponseEnd Some show ?thesis by (auto simp: queryPromise_def)
  qed
qed

lemma getSynonyms_loop_sent:
  "getSynonyms_loop graph ks sent promises
     = (sent @ ks, promises @ map (queryPromise graph) ks)"
  by (induction ks arbitrary: sent promises) simp_all

lemma getSynonyms_eq:
  "getSynonyms graph ks = (ks, promiseAll (map (queryPromise graph) ks))"
  by (simp add: getSynonyms_def getSynonyms_loop_sent)

lemma stringsOf_strings: "stringsOf (map (\<lambda>s. Some (JString s)) ss) = Some ss"
  by (induction ss) simp_all

lemma promiseAll_Resolved:
  "list_all (\<lambda>k. g k = Resolved (h k)) ks \<Longrightarrow> promiseAll (map g ks) = Resolved (map h ks)"
  by (induction ks) simp_all

lemma promiseAll_not_Resolved:
  "list_ex (\<lambda>p. case p of Resolved a \<Rightarrow> False | _ \<Rightarrow> True) ps \<Longrightarrow> promiseAll ps \<noteq> Resolved rs"
  by (induction ps arbitrary: rs) (auto split: promise.splits)

text \<open>
  Claim C8. For a request with keywords and a truthy \<open>synonyms\<close> parameter (the
  environment being set), one synonyms query is sent for each keyword. When every
  query is answered with a results document whose bindings are as the query produces
  them, one search is posted, built from the options whose keywords are the original
  keywords followed by the synonyms of each keyword in turn, the synonyms of a keyword
  being, binding after binding, the annotation target under an exact-synonym or
  alternative-label property and the preferred label of an equivalent concept. When
  the query of some keyword fails (its request or its response stream fails, or its
  body is not a document with a list of bindings), no search is posted, and the
  invocation ends with the error callback (status 500) or without a callback. That the
  queries run at the same time is not part of the model.
\<close>

theorem synonym_expansion:
  assumes env: "env ''DOCUMENTS_INDEX_NAME'' = Some documentsIndexName"
               "env ''OPEN_SEARCH_ENDPOINT'' = Some openSearchEndpoint"
    and kw: "p_keywords params \<noteq> None"
    and syn: "truthy (so_synonyms (parseParams defaultSearchFields params))"
  shows
    "synonymQueries (handler env defaultSearchFields buildSearchDocument graph es (Some params))
       = so_keywords (parseParams defaultSearchFields params) \<and>
     (list_all (queryAnswered_spec graph) (so_keywords (parseParams defaultSearchFields params)) \<longrightarrow>
        searchRequests (handler env defaultSearchFields buildSearchDocument graph es (Some params))
          = [SearchDocument (buildSearchDocument
               ((parseParams defaultSearchFields params)
                  \<lparr>so_keywords :=
                     so_keywords (parseParams defaultSearchFields params)
                     @ concat (map (synonymsOfKeyword_spec graph)
                                 (so_keywords (parseParams defaultSearchFields params)))\<rparr>))]) \<and>
     (list_ex (queryFails_spec graph) (so_keywords (parseParams defaultSearchFields params)) \<longrightarrow>
        searchRequests (handler env defaultSearchFields buildSearchDocument graph es (Some params))
          = [] \<and>
        (case outcome (handler env defaultSearchFields buildSearchDocument graph es (Some params)) of
           Callback err resp \<Rightarrow> err \<noteq> None \<and> statusCode resp = 500
         | NoCallback \<Rightarrow> True
         | Threw e \<Rightarrow> False))"
proof -
  let ?opts = "parseParams defaultSearchFields params"
  let ?run = "handler env defaultSearchFields buildSearchDocument graph es (Some params)"
  let ?all = "promiseAll (map (queryPromise graph) (so_keywords ?opts))"
  have run: "?run =
    (case ?all of
       Resolved results \<Rightarrow>
         (case stringsOf (concat results) of
            Some synonyms \<Rightarrow>
              \<lparr>synonymQueries = so_keywords ?opts,
               searchRequests = [SearchDocument (buildSearchDocument
                                   (?opts\<lparr>so_keywords := so_keywords ?opts @ synonyms\<rparr>))],
               outcome =
                 (case executeSearch buildSearchDocument es
                         (?opts\<lparr>so_keywords := so_keywords ?opts @ synonyms\<rparr>) of
                    Inr searchResults \<Rightarrow>
                      Callback None \<lparr>statusCode = 200, body = SearchResults searchResults,
                                     headers = responseHeaders\<rparr>
                  | Inl e \<Rightarrow> NoCallback)\<rparr>
          | None \<Rightarrow>
              \<lparr>synonymQueries = so_keywords ?opts,
               searchRequests = [SearchOfMixedKeywords ?opts
                  (map (\<lambda>k. Some (JString k)) (so_keywords ?opts) @ concat results)],
               outcome =
                 (case (gotEs (es (SearchOfMixedKeywords ?opts
                          (map (\<lambda>k. Some (JString k)) (so_keywords ?opts) @ concat results)))
                        :: unit os_error + 'b) of
                    Inr searchResults \<Rightarrow>
                      Callback None \<lparr>statusCode = 200, body = SearchResults searchResults,
                                     headers = responseHeaders\<rparr>
                  | Inl e \<Rightarrow> NoCallback)\<rparr>)
     | Rejected error \<Rightarrow>
         \<lparr>synonymQueries = so_keywords ?opts, searchRequests = [],
          outcome = Callback (Some error)
                      \<lparr>statusCode = 500, body = ErrObject error, headers = responseHeaders\<rparr>\<rparr>
     | Pending \<Rightarrow>
         \<lparr>synonymQueries = so_keywords ?opts, searchRequests = [], outcome = NoCallback\<rparr>)"
    using env kw syn
    by (auto simp: handler_def getStringFromEnv_def getSynonyms_eq Let_def
             split: promise.splits option.splits)
  have q: "synonymQueries ?run = so_keywords ?opts"
    by (simp add: run split: promise.splits option.splits)
  have ok: "searchRequests ?run =
              [SearchDocument (buildSearchDocument (?opts\<lparr>so_keywords := so_keywords ?opts
                 @ concat (map (synonymsOfKeyword_spec graph) (so_keywords ?opts))\<rparr>))]"
    if all: "list_all (queryAnswered_spec graph) (so_keywords ?opts)"
  proof -
    have "list_all (\<lambda>k. queryPromise graph k
                          = Resolved (map (\<lambda>s. Some (JString s)) (synonymsOfKeyword_spec graph k)))
            (so_keywords ?opts)"
      using all by (auto simp: list_all_iff queryPromise_answered)
    then have "?all = Resolved (map (\<lambda>k. map (\<lambda>s. Some (JString s)) (synonymsOfKeyword_spec graph k))
                                 (so_keywords ?opts))"
      by (rule promiseAll_Resolved)
    moreover have "concat (map (\<lambda>k. map (\<lambda>s. Some (JString s)) (synonymsOfKeyword_spec graph k))
                            (so_keywords ?opts))
                   = map (\<lambda>s. Some (JString s))
                       (concat (map (synonymsOfKeyword_spec graph) (so_keywords ?opts)))"
      by (simp add: map_concat comp_def)
    ultimately show ?thesis
      by (simp add: run stringsOf_strings)
  qed
  have bad: "searchRequests ?run = [] \<and>
        (case outcome ?run of
           Callback err resp \<Rightarrow> err \<noteq> None \<and> statusCode resp = 500
         | NoCallback \<Rightarrow> True
         | Threw e \<Rightarrow> False)"
    if ex: "list_ex (queryFails_spec graph) (so_keywords ?opts)"
  proof -
    from ex obtain k where "k \<in> set (so_keywords ?opts)" and "queryFails_spec graph k"
      by (auto simp: list_ex_iff)
    then have "list_ex (\<lambda>p. case p of Resolved a \<Rightarrow> False | _ \<Rightarrow> True)
            (map (queryPromise graph) (so_keywords ?opts))"
      using queryPromise_failed [of graph k]
      by (auto simp: list_ex_iff split: promise.splits)
    then have "\<forall>rs. ?all \<noteq> Resolved rs"
      by (blast dest: promiseAll_not_Resolved)
    then show ?thesis
      by (cases ?all) (auto simp: run)
  qed
  show ?thesis using q ok bad by blast
qed

text \<open>
  The keywords \<open>sea,ice\<close>, whose queries are both answered; the keywords \<open>sea,zzz\<close>,
  where the response stream of the query of \<open>zzz\<close> fails; and the keywords
  \<open>sea,err\<close>, where the query of \<open>err\<close> is answered with the error document of the
  store.
\<close>

theorem synonym_expansion_witness:
  "synonymQueries (handler ex_env [''title''] buildDocumentSearchQuery ex_graph ex_search
      (Some (no_params\<lparr>p_keywords := Some ''sea,ice'', p_synonyms := Some ''true''\<rparr>)))
     = [''sea'', ''ice''] \<and>
   searchRequests (handler ex_env [''title''] buildDocumentSearchQuery ex_graph ex_search
      (Some (no_params\<lparr>p_keywords := Some ''sea,ice'', p_synonyms := Some ''true''\<rparr>)))
     = [SearchDocument (buildDocumentSearchQuery
          ((parseParams [''title'']
              (no_params\<lparr>p_keywords := Some ''sea,ice'', p_synonyms := Some ''true''\<rparr>))
             \<lparr>so_keywords := [''sea'', ''ice'', ''ocean'', ''marine water'']\<rparr>))] \<and>
   searchRequests (handler ex_env [''title''] buildDocumentSearchQuery ex_graph ex_search
      (Some (no_params\<lparr>p_keywords := Some ''sea,zzz'', p_synonyms := Some ''true''\<rparr>)))
     = [] \<and>
   outcome (handler ex_env [''title''] buildDocumentSearchQuery ex_graph ex_search
      (Some (no_params\<lparr>p_keywords := Some ''sea,zzz'', p_synonyms := Some ''true''\<rparr>)))
     = Callback (Some ResponseStreamError)
         \<lparr>statusCode = 500, body = ErrObject ResponseStreamError, headers = responseHeaders\<rparr> \<and>
   searchRequests (handler ex_env [''title''] buildDocumentSearchQuery ex_graph ex_search
      (Some (no_params\<lparr>p_keywords := Some ''sea,err'', p_synonyms := Some ''true''\<rparr>)))
     = [] \<and>
   outcome (handler ex_env [''title''] buildDocumentSearchQuery ex_graph ex_search
      (Some (no_params\<lparr>p_keywords := Some ''sea,err'', p_synonyms := Some ''true''\<rparr>)))
     = NoCallback"
proof -
  let ?p1 = "no_params\<lparr>p_keywords := Some ''sea,ice'', p_synonyms := Some ''true''\<rparr>"
  let ?p2 = "no_params\<lparr>p_keywords := Some ''sea,zzz'', p_synonyms := Some ''true''\<rparr>"
  let ?p3 = "no_params\<lparr>p_keywords := Some ''sea,err'', p_synonyms := Some ''true''\<rparr>"
  have a: "ex_env ''DOCUMENTS_INDEX_NAME'' = Some ''documents''"
    and b: "ex_env ''OPEN_SEARCH_ENDPOINT'' = Some ''https://os''"
    by (simp_all add: ex_env_def)
  have k1: "p_keywords ?p1 \<noteq> None" and k2: "p_keywords ?p2 \<noteq> None"
    and k3: "p_keywords ?p3 \<noteq> None"
    by (simp_all add: no_params_def)
  have s1: "truthy (so_synonyms (parseParams [''title''] ?p1))"
    and s2: "truthy (so_synonyms (parseParams [''title''] ?p2))"
    and s3: "truthy (so_synonyms (parseParams [''title''] ?p3))"
    by (simp_all add: no_params_def parseParams_def)
  have w1: "so_keywords (parseParams [''title''] ?p1) = [''sea'', ''ice'']"
    and w2: "so_keywords (parseParams [''title''] ?p2) = [''sea'', ''zzz'']"
    and w3: "so_keywords (parseParams [''title''] ?p3) = [''sea'', ''err'']"
    by (simp_all add: no_params_def parseParams_def)
  have g1: "list_all (queryAnswered_spec ex_graph) (so_keywords (parseParams [''title''] ?p1))"
    unfolding w1 by code_simp
  have g2: "list_ex (queryFails_spec ex_graph) (so_keywords (parseParams [''title''] ?p2))"
    unfolding w2 by code_simp
  have g3: "list_ex (queryFails_spec ex_graph) (so_keywords (parseParams [''title''] ?p3))"
    unfolding w3 by code_simp
  have c: "concat (map (synonymsOfKeyword_spec ex_graph) [''sea'', ''ice''])
             = [''ocean'', ''marine water'']"
    by code_simp
  have o2: "outcome (handler ex_env [''title''] buildDocumentSearchQuery ex_graph ex_search (Some ?p2))
     = Callback (Some ResponseStreamError)
         \<lparr>statusCode = 500, body = ErrObject ResponseStreamError, headers = responseHeaders\<rparr>"
    by code_simp
  have o3: "outcome (handler ex_env [''title''] buildDocumentSearchQuery ex_graph ex_search (Some ?p3))
     = NoCallback"
    by code_simp
  note t1 = synonym_expansion [OF a b k1 s1, of buildDocumentSearchQuery ex_graph ex_search]
  note t2 = synonym_expansion [OF a b k2 s2, of buildDocumentSearchQuery ex_graph ex_search]
  note t3 = synonym_expansion [OF a b k3 s3, of buildDocumentSearchQuery ex_graph ex_search]
  have q1: "synonymQueries (handler ex_env [''title''] buildDocumentSearchQuery ex_graph ex_search
      (Some ?p1)) = [''sea'', ''ice'']"
    using t1 [THEN conjunct1] by (simp only: w1)
  have r1: "searchRequests (handler ex_env [''title''] buildDocumentSearchQuery ex_graph ex_search
      (Some ?p1))
     = [SearchDocument (buildDocumentSearchQuery
          ((parseParams [''title''] ?p1)
             \<lparr>so_keywords := [''sea'', ''ice'', ''ocean'', ''marine water'']\<rparr>))]"
    using t1 [THEN conjunct2, THEN conjunct1, THEN mp, OF g1] by (simp only: w1 c append.simps)
  have r2: "searchRequests (handler ex_env [''title''] buildDocumentSearchQuery ex_graph ex_search
      (Some ?p2)) = []"
    using t2 [THEN conjunct2, THEN conjunct2, THEN mp, OF g2] by (rule conjunct1)
  have r3: "searchRequests (handler ex_env [''title''] buildDocumentSearchQuery ex_graph ex_search
      (Some ?p3)) = []"
    using t3 [THEN conjunct2, THEN conjunct2, THEN mp, OF g3] by (rule conjunct1)
  show ?thesis
    using q1 r1 r2 o2 r3 o3 by (intro conjI)
qed

text \<open>
  Claim C10. \<open>parseParams\<close> turns \<open>endorsed\<close> into the boolean "the parameter is the
  string \<open>true\<close>", and passes \<open>refereed\<close> through as the string it is (\<open>false\<close> when
  the parameter is absent). In the search document built from the parsed parameters,
  the endorsed-exists filter is present exactly when \<open>endorsed\<close> is \<open>true\<close>, and the
  refereed-exists filter exactly when \<open>refereed\<close> is present and not empty: the
  request \<open>refereed=false\<close> has the refereed filter, the request \<open>endorsed=false\<close>
  has no endorsed filter.
\<close>

theorem parseParams_refereed_endorsed:
  "so_endorsed (parseParams defaultSearchFields params) = JSBool (p_endorsed params = Some ''true'') \<and>
   so_refereed (parseParams defaultSearchFields params) =
     (case p_refereed params of None \<Rightarrow> JSBool False | Some v \<Rightarrow> JSString v) \<and>
   (Exists ''obps_endorsementExternal_externalEndorsedBy''
      \<in> set (sd_query_bool_filter (buildDocumentSearchQuery (parseParams defaultSearchFields params)))
    \<longleftrightarrow> p_endorsed params = Some ''true'') \<and>
   (Exists ''dc_description_refereed''
      \<in> set (sd_query_bool_filter (buildDocumentSearchQuery (parseParams defaultSearchFields params)))
    \<longleftrightarrow> (\<exists>v. p_refereed params = Some v \<and> v \<noteq> [])) \<and>
   (p_refereed params = Some ''false'' \<longrightarrow>
      Exists ''dc_description_refereed''
        \<in> set (sd_query_bool_filter (buildDocumentSearchQuery (parseParams defaultSearchFields params)))) \<and>
   (p_endorsed params = Some ''false'' \<longrightarrow>
      Exists ''obps_endorsementExternal_externalEndorsedBy''
        \<notin> set (sd_query_bool_filter (buildDocumentSearchQuery (parseParams defaultSearchFields params))))"
  by (auto simp: parseParams_def buildDocumentSearchQuery_def split: option.splits)

theorem parseParams_refereed_endorsed_witness:
  "p_refereed (no_params\<lparr>p_keywords := Some ''sea'', p_refereed := Some ''false'',
                         p_endorsed := Some ''false''\<rparr>) = Some ''false'' \<and>
   p_endorsed (no_params\<lparr>p_keywords := Some ''sea'', p_refereed := Some ''false'',
                         p_endorsed := Some ''false''\<rparr>) = Some ''false'' \<and>
   sd_query_bool_filter (buildDocumentSearchQuery (parseParams [''title'']
      (no_params\<lparr>p_keywords := Some ''sea'', p_refereed := Some ''false'',
                  p_endorsed := Some ''false''\<rparr>))) = [Exists ''dc_description_refereed'']"
  using parseParams_refereed_endorsed [of "[''title'']"
      "no_params\<lparr>p_keywords := Some ''sea'', p_refereed := Some ''false'',
                  p_endorsed := Some ''false''\<rparr>"]
  by (simp add: no_params_def parseParams_def buildDocumentSearchQuery_def)

text \<open>
  Claim C4. For the options of the builder's test, the search document has a
  \<open>must\<close> clause that is a query string over \<open>title\<close> of the two keywords, each
  between double quotes; a filter of exactly four clauses, in the order nested term
  label, nested term URI, refereed-exists, endorsed-exists; the sort \<open>title\<close>
  ascending followed by \<open>_score\<close>; and the excluded source fields \<open>_bitstreamText\<close>,
  \<open>bitstreams\<close> and \<open>metadata\<close>. It is the document the test expects.
\<close>

theorem buildDocumentSearchQuery_full_document:
  "buildDocumentSearchQuery test_options =
     \<lparr>sd_from = JSNumber 0,
      sd_size = JSNumber 20,
      sd_query_bool_must =
        Some \<lparr>qs_fields = [''title''],
              qs_query = [CHR '' '', CHR 0x22] @ ''ocean'' @ [CHR 0x22, CHR '' '', CHR '' '', CHR 0x22]
                         @ ''sea'' @ [CHR 0x22]\<rparr>,
      sd_query_bool_filter =
        [Nested ''_terms'' ''_terms.label'' ''alpha'',
         Nested ''_terms'' ''_terms.uri'' ''uri://alpha'',
         Exists ''dc_description_refereed'',
         Exists ''obps_endorsementExternal_externalEndorsedBy''],
      sd_highlight_fields = [''_bitstreamText''],
      sd_sort = [SortField ''title'' ''asc'', SortScore],
      sd_source_excludes = [''_bitstreamText'', ''bitstreams'', ''metadata'']\<rparr>"
  by (simp add: buildDocumentSearchQuery_def test_options_def formatKeyword_def sortKey_def)

end
